theory Spec2Isabelle
  imports Complex_Main
begin

section \<open>The orchestrator and its outside world\<close>

text \<open>
  The development embeds \<^verbatim>\<open>scripts/start_dpi.py\<close> (class \<^verbatim>\<open>DPISystem\<close>, \<^verbatim>\<open>main\<close>).
  A \<^verbatim>\<open>DPISystem\<close> object is a record of its attributes.  Everything the object does to
  the outside (a call on a collaborator, a subprocess, a thread, the log, the console, a
  sleep) is an event appended to a trace, in program order.  An assignment to
  \<^verbatim>\<open>self.running\<close> is recorded as an event too, because the background loops read
  that flag.  Whether an outside call returns or raises is not decided by the program:
  an oracle answers, given the trace so far and the call.

  Exceptions are values.  Only exceptions of class \<^verbatim>\<open>Exception\<close> are modelled, so
  \<^verbatim>\<open>except Exception\<close> and the bare \<^verbatim>\<open>except:\<close> catch the same things here;
  an asynchronous \<^verbatim>\<open>KeyboardInterrupt\<close> or \<^verbatim>\<open>SystemExit\<close> is outside the model.
  Logging, printing and sleeping do not consult the oracle: they never raise.
  Interpolated values in log messages (the exception text, a PID, statistics) are left
  out of the message; the fixed text is kept.
\<close>

datatype exn =
    FileNotFoundError
  | AttributeError
  | TypeError
  | ValueError
  | TimeoutExpired
  | OtherException

datatype level = INFO | WARNING | ERROR

text \<open>
  A configuration value that Python's \<^verbatim>\<open>int()\<close> is applied to: a YAML integer, a
  finite YAML float (a rational), or anything \<^verbatim>\<open>int()\<close> raises on (null, a list, a
  text that is no number).
\<close>

datatype yaml_value = YInt int | YFloat rat | YOther

datatype thread_target =
    CreateTopology
  | TrafficGeneration
  | MonitorSystem
  | ExportAfterDelay yaml_value string

datatype event =
    Print string
  | Log level string
  | Sleep rat
  | SetRunning bool
  | OpenConfig string
  | Makedirs string
  | BasicConfig string
  | Now
  | SubprocessRun "string list"
  | PathExists string
  | ShutilMove string string
  | NewDPITopology
  | NewPacketLogger
  | NewTrafficGenerator
  | ThreadStart thread_target
  | TopologyStartTraffic
  | Popen "string list"
  | StopTrafficGeneration
  | ControllerStop
  | LoggerClose
  | TopologyStop
  | Terminate int
  | Wait int rat
  | Kill int
  | Join thread_target rat
  | GetRealTimeStats
  | WriteHealth int "(string \<times> string) list"

datatype outcome = Ret int | Exc exn

type_synonym env = "event list \<Rightarrow> event \<Rightarrow> outcome"

text \<open>
  The configuration, in the shape the orchestrator reads it.  A field is \<open>None\<close> when
  the key is absent, and the code's default applies.  \<open>device_id\<close> and \<open>grpc_port\<close>
  hold the text that \<^verbatim>\<open>str()\<close> yields.
\<close>

record switch =
  switch_name :: "string option"
  device_id :: "string option"
  grpc_port :: "string option"
  p4info_file :: "string option"
  runtime_json_file :: "string option"

record dpi_config =
  switches :: "switch list"
  stats_interval :: "yaml_value option"
  initial_delay_seconds :: "yaml_value option"
  database_file :: "string option"
  logging_file :: "string option"

definition empty_config :: dpi_config where
  "empty_config = \<lparr>switches = [], stats_interval = None, initial_delay_seconds = None,
     database_file = None, logging_file = None\<rparr>"

text \<open>
  The attributes of a constructed \<^verbatim>\<open>DPISystem\<close>.  A collaborator reference is \<open>None\<close>
  or an object; \<open>logger_component\<close> is \<open>None\<close> while the attribute does not exist
  (\<^verbatim>\<open>hasattr\<close> is false).  A process handle is identified by its PID, a thread by its
  target.  \<open>processes\<close> is a Python dict: an association list in insertion order with
  distinct keys.
\<close>

record dpi_system =
  config :: dpi_config
  running :: bool
  run_id :: int
  controller :: "unit option"
  traffic_generator :: "unit option"
  topology :: "unit option"
  logger_component :: "unit option"
  threads :: "thread_target list"
  processes :: "(string \<times> int) list"

fun dict_set :: "'k \<Rightarrow> 'v \<Rightarrow> ('k \<times> 'v) list \<Rightarrow> ('k \<times> 'v) list" where
  "dict_set k v [] = [(k, v)]"
| "dict_set k v ((k', v') # kvs) =
     (if k' = k then (k, v) # kvs else (k', v') # dict_set k v kvs)"

subsection \<open>Programs: state passing with exceptions\<close>

type_synonym state = "dpi_system \<times> event list"

type_synonym 'a prog = "state \<Rightarrow> (exn + 'a) \<times> state"

definition return_val :: "'a \<Rightarrow> 'a prog" where
  "return_val x \<sigma> = (Inr x, \<sigma>)"

definition raise_exn :: "exn \<Rightarrow> 'a prog" where
  "raise_exn e \<sigma> = (Inl e, \<sigma>)"

definition bind_prog :: "'a prog \<Rightarrow> ('a \<Rightarrow> 'b prog) \<Rightarrow> 'b prog" where
  "bind_prog m f \<sigma> = (case m \<sigma> of (Inl e, \<sigma>') \<Rightarrow> (Inl e, \<sigma>') | (Inr x, \<sigma>') \<Rightarrow> f x \<sigma>')"

definition andthen :: "'a prog \<Rightarrow> 'b prog \<Rightarrow> 'b prog" where
  "andthen m k = bind_prog m (\<lambda>_. k)"

text \<open>\<^verbatim>\<open>try: m  except Exception: h\<close>; what the object and the world became stays.\<close>

definition try_except :: "'a prog \<Rightarrow> 'a prog \<Rightarrow> 'a prog" where
  "try_except m h \<sigma> = (case m \<sigma> of (Inl e, \<sigma>') \<Rightarrow> h \<sigma>' | (Inr x, \<sigma>') \<Rightarrow> (Inr x, \<sigma>'))"

text \<open>\<^verbatim>\<open>try: m  finally: f\<close>: \<open>f\<close> always runs; an exception of \<open>m\<close> goes on after it.\<close>

definition try_finally :: "'a prog \<Rightarrow> unit prog \<Rightarrow> 'a prog" where
  "try_finally m f \<sigma> =
     (case m \<sigma> of (r, \<sigma>') \<Rightarrow>
        (case f \<sigma>' of (Inl e, \<sigma>'') \<Rightarrow> (Inl e, \<sigma>'') | (Inr u, \<sigma>'') \<Rightarrow> (r, \<sigma>'')))"

text \<open>An outside call: the oracle answers from the trace so far; the call is recorded.\<close>

definition extern :: "env \<Rightarrow> event \<Rightarrow> int prog" where
  "extern env c \<sigma> =
     (case env (snd \<sigma>) c of
        Ret v \<Rightarrow> (Inr v, (fst \<sigma>, snd \<sigma> @ [c]))
      | Exc e \<Rightarrow> (Inl e, (fst \<sigma>, snd \<sigma> @ [c])))"

definition emit :: "event \<Rightarrow> unit prog" where
  "emit c \<sigma> = (Inr (), (fst \<sigma>, snd \<sigma> @ [c]))"

definition get_self :: "dpi_system prog" where
  "get_self \<sigma> = (Inr (fst \<sigma>), \<sigma>)"

definition modify_self :: "(dpi_system \<Rightarrow> dpi_system) \<Rightarrow> unit prog" where
  "modify_self f \<sigma> = (Inr (), (f (fst \<sigma>), snd \<sigma>))"

definition set_running :: "bool \<Rightarrow> unit prog" where
  "set_running b = andthen (modify_self (\<lambda>s. s\<lparr>running := b\<rparr>)) (emit (SetRunning b))"

text \<open>The events a program issues from a state: what it appends to the trace.\<close>

definition issued :: "'a prog \<Rightarrow> state \<Rightarrow> event list" where
  "issued m \<sigma> = drop (length (snd \<sigma>)) (snd (snd (m \<sigma>)))"

definition outcome_of :: "'a prog \<Rightarrow> state \<Rightarrow> exn + 'a" where
  "outcome_of m \<sigma> = fst (m \<sigma>)"

definition self_after :: "'a prog \<Rightarrow> state \<Rightarrow> dpi_system" where
  "self_after m \<sigma> = fst (snd (m \<sigma>))"

section \<open>Startup\<close>

subsection \<open>compile_p4_program\<close>

definition compile_cmd :: "string list" where
  "compile_cmd = [''p4c'', ''--target'', ''bmv2'', ''--arch'', ''v1model'',
     ''--p4runtime-files'', ''p4_programs/dpi_l2_l4.p4info.txt'', ''--std'', ''p4_16'',
     ''p4_programs/dpi_l2_l4.p4'']"

definition compile_p4_program :: "env \<Rightarrow> bool prog" where
  "compile_p4_program env =
     andthen (emit (Log INFO ''Compiling P4 program...''))
     (try_except
       (bind_prog (extern env (SubprocessRun [''p4c'', ''--version''])) (\<lambda>rc.
          if rc \<noteq> 0 then
            andthen (emit (Log ERROR ''P4 compiler not found. Please install P4 tools.''))
              (return_val False)
          else
            bind_prog (extern env (SubprocessRun compile_cmd)) (\<lambda>rc2.
              if rc2 \<noteq> 0 then
                andthen (emit (Log ERROR ''P4 compilation failed'')) (return_val False)
              else
                andthen
                  (bind_prog (extern env (PathExists ''dpi_l2_l4.json'')) (\<lambda>ex.
                     if ex \<noteq> 0 then
                       andthen (extern env (ShutilMove ''dpi_l2_l4.json''
                                  ''p4_programs/dpi_l2_l4.json'')) (return_val ())
                     else return_val ()))
                  (andthen (emit (Log INFO ''P4 program compiled successfully''))
                    (return_val True)))))
       (andthen (emit (Log ERROR ''Error compiling P4 program'')) (return_val False)))"

subsection \<open>The six startup actions\<close>

definition start_mininet_topology :: "env \<Rightarrow> bool prog" where
  "start_mininet_topology env =
     andthen (emit (Log INFO ''Starting Mininet topology...''))
     (try_except
       (andthen (extern env NewDPITopology)
       (andthen (modify_self (\<lambda>s. s\<lparr>topology := Some ()\<rparr>))
       (andthen (extern env (ThreadStart CreateTopology))
       (andthen (modify_self (\<lambda>s. s\<lparr>threads := threads s @ [CreateTopology]\<rparr>))
       (andthen (emit (Sleep 10))
       (andthen
          (try_except
             (andthen (extern env TopologyStartTraffic) (return_val ()))
             (emit (Log WARNING ''Could not start built-in Mininet traffic'')))
       (andthen (emit (Log INFO ''Mininet topology started''))
          (return_val True))))))))
       (andthen (emit (Log ERROR ''Error starting Mininet topology'')) (return_val False)))"

definition opt_default :: "'a \<Rightarrow> 'a option \<Rightarrow> 'a" where
  "opt_default d v = (case v of None \<Rightarrow> d | Some x \<Rightarrow> x)"

definition worker_cmd :: "switch \<Rightarrow> string list" where
  "worker_cmd sw =
     [''python3'', ''scripts/p4_controller_worker.py'',
      ''--name'', opt_default ''s1'' (switch_name sw),
      ''--device-id'', opt_default ''1'' (device_id sw),
      ''--grpc-port'', opt_default ''50051'' (grpc_port sw),
      ''--p4info'', opt_default ''p4_programs/dpi_l2_l4.p4info.txt'' (p4info_file sw),
      ''--json'', opt_default ''p4_programs/dpi_l2_l4.json'' (runtime_json_file sw)]"

text \<open>The loop over the configured switches: one worker process each.\<close>

primrec launch_workers :: "env \<Rightarrow> switch list \<Rightarrow> unit prog" where
  "launch_workers env [] = return_val ()"
| "launch_workers env (sw # sws) =
     bind_prog (extern env (Popen (worker_cmd sw))) (\<lambda>proc.
       andthen (modify_self (\<lambda>s. s\<lparr>processes :=
                  dict_set (''p4c_'' @ opt_default ''s1'' (switch_name sw)) proc (processes s)\<rparr>))
       (andthen (emit (Log INFO (''Launched controller worker for ''
                  @ opt_default ''s1'' (switch_name sw))))
         (launch_workers env sws)))"

definition start_p4_controller :: "env \<Rightarrow> bool prog" where
  "start_p4_controller env =
     andthen (emit (Log INFO ''Starting P4 controllers (one per switch)...''))
     (try_except
       (bind_prog get_self (\<lambda>s.
          if switches (config s) = [] then
            andthen (emit (Log WARNING ''No switches defined in config'')) (return_val True)
          else
            andthen (launch_workers env (switches (config s)))
            (andthen (emit (Sleep 3))
            (andthen (emit (Log INFO ''All P4 controller workers launched''))
              (return_val True)))))
       (andthen (emit (Log ERROR ''Error starting P4 controller workers''))
          (return_val False)))"

definition start_packet_logger :: "env \<Rightarrow> bool prog" where
  "start_packet_logger env =
     andthen (emit (Log INFO ''Starting packet logger...''))
     (try_except
       (andthen (extern env NewPacketLogger)
       (andthen (modify_self (\<lambda>s. s\<lparr>logger_component := Some ()\<rparr>))
       (andthen (emit (Log INFO ''Packet logger started''))
          (return_val True))))
       (andthen (emit (Log ERROR ''Error starting packet logger'')) (return_val False)))"

definition start_traffic_generator :: "env \<Rightarrow> bool prog" where
  "start_traffic_generator env =
     andthen (emit (Log INFO ''Starting traffic generator...''))
     (try_except
       (andthen (extern env NewTrafficGenerator)
       (andthen (modify_self (\<lambda>s. s\<lparr>traffic_generator := Some ()\<rparr>))
       (andthen (extern env (ThreadStart TrafficGeneration))
       (andthen (modify_self (\<lambda>s. s\<lparr>threads := threads s @ [TrafficGeneration]\<rparr>))
       (andthen (emit (Log INFO ''Traffic generator started''))
          (return_val True))))))
       (andthen (emit (Log ERROR ''Error starting traffic generator'')) (return_val False)))"

definition start_web_interface :: "env \<Rightarrow> bool prog" where
  "start_web_interface env =
     andthen (emit (Log INFO ''Starting Flask API server...''))
     (try_except
       (bind_prog (extern env (Popen [''python3'', ''scripts/flask_api.py'',
                     ''--host'', ''0.0.0.0'', ''--port'', ''5000''])) (\<lambda>web_process.
          andthen (modify_self (\<lambda>s. s\<lparr>processes :=
                     dict_set ''flask_api'' web_process (processes s)\<rparr>))
          (andthen (emit (Log INFO ''Flask API server started''))
             (return_val True))))
       (andthen (emit (Log ERROR ''Error starting Flask API'')) (return_val False)))"

definition start_monitoring :: "env \<Rightarrow> bool prog" where
  "start_monitoring env =
     andthen (emit (Log INFO ''Starting monitoring...''))
     (try_except
       (andthen (extern env (ThreadStart MonitorSystem))
       (andthen (modify_self (\<lambda>s. s\<lparr>threads := threads s @ [MonitorSystem]\<rparr>))
       (andthen (emit (Log INFO ''Monitoring started''))
          (return_val True))))
       (andthen (emit (Log ERROR ''Error starting monitoring'')) (return_val False)))"

subsection \<open>The delayed exporter\<close>

text \<open>
  Python's \<^verbatim>\<open>int()\<close>: the integer itself, a float truncated toward zero, an exception
  on anything else.
\<close>

definition int_of_yaml :: "yaml_value \<Rightarrow> exn + int" where
  "int_of_yaml v =
     (case v of
        YInt n \<Rightarrow> Inr n
      | YFloat q \<Rightarrow> Inr (if 0 \<le> q then \<lfloor>q\<rfloor> else \<lceil>q\<rceil>)
      | YOther \<Rightarrow> Inl TypeError)"

definition py_int :: "yaml_value \<Rightarrow> int prog" where
  "py_int v = (case int_of_yaml v of Inl e \<Rightarrow> raise_exn e | Inr n \<Rightarrow> return_val n)"

definition export_cmd :: "string \<Rightarrow> string list" where
  "export_cmd db_file = [''python3'', ''scripts/export_db.py'', ''--db'', db_file, ''--out'', ''logs'']"

text \<open>
  The body of the exporter thread, \<^verbatim>\<open>_export_after_delay\<close>, with the two values its
  closure captured.
\<close>

definition export_after_delay :: "env \<Rightarrow> yaml_value \<Rightarrow> string \<Rightarrow> unit prog" where
  "export_after_delay env delay db_file =
     try_except
       (bind_prog (py_int delay) (\<lambda>d.
          andthen (emit (Sleep (of_int (max 1 d))))
          (andthen (extern env (SubprocessRun (export_cmd db_file)))
          (emit (Log INFO ''Initial run export completed'')))))
       (emit (Log ERROR ''Initial export failed''))"

definition schedule_initial_export :: "env \<Rightarrow> unit prog" where
  "schedule_initial_export env =
     bind_prog get_self (\<lambda>s.
       andthen
         (extern env (ThreadStart (ExportAfterDelay
            (opt_default (YInt 20) (initial_delay_seconds (config s)))
            (opt_default ''logs/packets.db'' (database_file (config s))))))
         (return_val ()))"

subsection \<open>start_system\<close>

definition components :: "env \<Rightarrow> (string \<times> bool prog) list" where
  "components env =
     [(''Mininet Topology'', start_mininet_topology env),
      (''P4 Controller'', start_p4_controller env),
      (''Packet Logger'', start_packet_logger env),
      (''Traffic Generator'', start_traffic_generator env),
      (''Web Interface'', start_web_interface env),
      (''Monitoring'', start_monitoring env)]"

text \<open>
  The \<^verbatim>\<open>for name, start_func in components\<close> loop of \<^verbatim>\<open>start_system\<close>, with its
  early \<^verbatim>\<open>return False\<close>; \<open>True\<close> means the loop ran to its end.
\<close>

primrec run_components :: "(string \<times> bool prog) list \<Rightarrow> bool prog" where
  "run_components [] = return_val True"
| "run_components (c # cs) =
     andthen (emit (Print (''DEBUG: Starting '' @ fst c @ ''...'')))
     (andthen (emit (Log INFO (''Starting '' @ fst c @ ''...'')))
     (bind_prog (snd c) (\<lambda>ok.
        if \<not> ok then
          andthen (emit (Print (''DEBUG: '' @ fst c @ '' failed'')))
          (andthen (emit (Log ERROR (''Failed to start '' @ fst c)))
            (return_val False))
        else
          andthen (emit (Print (''DEBUG: '' @ fst c @ '' OK'')))
          (andthen (emit (Sleep 2))
            (run_components cs)))))"

definition start_system :: "env \<Rightarrow> bool prog" where
  "start_system env =
     andthen (emit (Print ''DEBUG: start_system called''))
     (andthen (emit (Log INFO ''Starting P4 DPI System...''))
     (andthen (set_running True)
     (try_except
       (andthen (emit (Print ''DEBUG: compiling P4...''))
       (bind_prog (compile_p4_program env) (\<lambda>compiled.
          if \<not> compiled then
            andthen (emit (Print ''DEBUG: compile failed''))
            (andthen (emit (Log ERROR ''Failed to compile P4 program''))
              (return_val False))
          else
            andthen (emit (Print ''DEBUG: compile OK''))
            (bind_prog (run_components (components env)) (\<lambda>started.
               if \<not> started then return_val False
               else
                 andthen
                   (try_except (schedule_initial_export env)
                      (emit (Log WARNING ''Failed to schedule initial export'')))
                 (andthen (emit (Print ''DEBUG: All components started''))
                 (andthen (emit (Log INFO ''P4 DPI System started successfully''))
                   (return_val True))))))))
       (andthen (emit (Print ''DEBUG: Exception in start_system''))
       (andthen (emit (Log ERROR ''Error starting system''))
         (return_val False))))))"

section \<open>Monitoring\<close>

definition status_of :: "unit option \<Rightarrow> string" where
  "status_of r = (if r \<noteq> None then ''running'' else ''stopped'')"

definition health_components :: "dpi_system \<Rightarrow> (string \<times> string) list" where
  "health_components s =
     dict_set ''topology'' (status_of (topology s))
     (dict_set ''traffic_generator'' (status_of (traffic_generator s))
     (dict_set ''logger'' (status_of (logger_component s))
     (dict_set ''controller'' (status_of (controller s)) [])))"

definition check_system_health :: "env \<Rightarrow> unit prog" where
  "check_system_health env =
     bind_prog (extern env Now) (\<lambda>timestamp.
     bind_prog get_self (\<lambda>s.
       andthen (extern env (WriteHealth timestamp (health_components s)))
         (return_val ())))"

definition log_statistics :: "env \<Rightarrow> unit prog" where
  "log_statistics env =
     bind_prog get_self (\<lambda>s.
       if controller s \<noteq> None then
         andthen (extern env GetRealTimeStats) (emit (Log INFO ''System statistics''))
       else return_val ())"

text \<open>\<^verbatim>\<open>time.sleep\<close> on a configured value: a number that is not negative, or it raises.\<close>

definition sleep_config :: "yaml_value \<Rightarrow> unit prog" where
  "sleep_config v =
     (case v of
        YInt n \<Rightarrow> if n < 0 then raise_exn ValueError else emit (Sleep (of_int n))
      | YFloat q \<Rightarrow> if q < 0 then raise_exn ValueError else emit (Sleep q)
      | YOther \<Rightarrow> raise_exn TypeError)"

text \<open>
  One turn of the \<^verbatim>\<open>while self.running\<close> loop of \<^verbatim>\<open>monitor_system\<close>: the test of
  the flag and the loop body.  The loop itself runs in a background thread, beside the
  main thread's operations.
\<close>

definition monitor_iteration :: "env \<Rightarrow> unit prog" where
  "monitor_iteration env =
     bind_prog get_self (\<lambda>s.
       if running s then
         try_except
           (andthen (check_system_health env)
           (andthen (log_statistics env)
           (bind_prog get_self (\<lambda>s'.
              sleep_config (opt_default (YInt 10) (stats_interval (config s')))))))
           (emit (Log ERROR ''Error in monitoring''))
       else return_val ())"

section \<open>Shutdown\<close>

text \<open>The loop over \<^verbatim>\<open>self.processes.items()\<close>, each process in its own \<^verbatim>\<open>try\<close>.\<close>

primrec stop_processes :: "env \<Rightarrow> (string \<times> int) list \<Rightarrow> unit prog" where
  "stop_processes env [] = return_val ()"
| "stop_processes env (np # nps) =
     andthen
       (try_except
          (andthen (extern env (Terminate (snd np)))
          (andthen (extern env (Wait (snd np) 5))
            (return_val ())))
          (andthen (extern env (Kill (snd np))) (return_val ())))
       (stop_processes env nps)"

primrec join_threads :: "env \<Rightarrow> thread_target list \<Rightarrow> unit prog" where
  "join_threads env [] = return_val ()"
| "join_threads env (t # ts) =
     andthen (extern env (Join t 5)) (join_threads env ts)"

definition stop_system :: "env \<Rightarrow> unit prog" where
  "stop_system env =
     andthen (emit (Log INFO ''Stopping P4 DPI System...''))
     (andthen (set_running False)
     (try_except
       (andthen (bind_prog get_self (\<lambda>s.
          if traffic_generator s \<noteq> None
          then andthen (extern env StopTrafficGeneration) (return_val ())
          else return_val ()))
       (andthen (bind_prog get_self (\<lambda>s.
          if controller s \<noteq> None
          then andthen (extern env ControllerStop) (return_val ())
          else return_val ()))
       (andthen (bind_prog get_self (\<lambda>s.
          if logger_component s \<noteq> None
          then andthen (extern env LoggerClose) (return_val ())
          else return_val ()))
       (andthen (bind_prog get_self (\<lambda>s.
          if topology s \<noteq> None
          then andthen (extern env TopologyStop) (return_val ())
          else return_val ()))
       (andthen (bind_prog get_self (\<lambda>s. stop_processes env (processes s)))
       (andthen (bind_prog get_self (\<lambda>s. join_threads env (threads s)))
         (emit (Log INFO ''P4 DPI System stopped''))))))))
       (emit (Log ERROR ''Error stopping system''))))"

section \<open>run, the constructor and main\<close>

definition show_bool :: "bool \<Rightarrow> string" where
  "show_bool b = (if b then ''True'' else ''False'')"

definition run :: "env \<Rightarrow> unit prog" where
  "run env =
     andthen (emit (Print ''DEBUG: run() called''))
     (try_finally
       (try_except
         (andthen (emit (Print ''DEBUG: calling start_system''))
         (bind_prog (start_system env) (\<lambda>started.
            if started then
              andthen (bind_prog get_self (\<lambda>s. emit (Print
                 (''DEBUG: start_system returned True, running='' @ show_bool (running s)))))
              (andthen (bind_prog get_self (\<lambda>s.
                 if running s then emit (Sleep 360) else return_val ()))
              (bind_prog get_self (\<lambda>s. emit (Print
                 (''DEBUG: exited run loop, running='' @ show_bool (running s))))))
            else
              andthen (emit (Print ''DEBUG: start_system returned False''))
                (emit (Log ERROR ''Failed to start system'')))))
         (andthen (emit (Print ''DEBUG: Exception in run''))
           (emit (Log ERROR ''Error in main loop''))))
       (andthen (emit (Print ''DEBUG: run() finally block''))
         (stop_system env)))"

text \<open>
  What \<^verbatim>\<open>open(config_file)\<close> followed by \<^verbatim>\<open>yaml.safe_load\<close> gives: no such file
  (\<^verbatim>\<open>FileNotFoundError\<close>), another failure, or the configuration.
\<close>

datatype file_result = NoSuchFile | Unreadable | Loaded dpi_config

text \<open>
  The \<^verbatim>\<open>logger\<close> attribute while the object is built: not yet assigned, assigned
  \<^verbatim>\<open>None\<close>, or a logger.  \<^verbatim>\<open>self.logger.error(...)\<close> needs the third.
\<close>

datatype logger_attr = Unset | IsNone | IsLogger

definition load_config ::
  "(string \<Rightarrow> file_result) \<Rightarrow> logger_attr \<Rightarrow> string \<Rightarrow> event list
     \<Rightarrow> (exn + dpi_config) \<times> event list" where
  "load_config fs lg config_file tr =
     (case fs config_file of
        Loaded c \<Rightarrow> (Inr c, tr @ [OpenConfig config_file])
      | Unreadable \<Rightarrow> (Inl OtherException, tr @ [OpenConfig config_file])
      | NoSuchFile \<Rightarrow>
          (case lg of
             IsLogger \<Rightarrow>
               (Inr empty_config,
                tr @ [OpenConfig config_file, Log ERROR ''Configuration file not found''])
           | IsNone \<Rightarrow> (Inl AttributeError, tr @ [OpenConfig config_file])
           | Unset \<Rightarrow> (Inl AttributeError, tr @ [OpenConfig config_file])))"

definition setup_logging :: "env \<Rightarrow> dpi_config \<Rightarrow> event list \<Rightarrow> (exn + unit) \<times> event list" where
  "setup_logging env c tr =
     (case env tr (Makedirs ''logs'') of
        Exc e \<Rightarrow> (Inl e, tr @ [Makedirs ''logs''])
      | Ret u \<Rightarrow>
          (case env (tr @ [Makedirs ''logs''])
                  (BasicConfig (opt_default ''logs/dpi_system.log'' (logging_file c))) of
             Exc e \<Rightarrow>
               (Inl e, tr @ [Makedirs ''logs'',
                  BasicConfig (opt_default ''logs/dpi_system.log'' (logging_file c))])
           | Ret u' \<Rightarrow>
               (Inr (), tr @ [Makedirs ''logs'',
                  BasicConfig (opt_default ''logs/dpi_system.log'' (logging_file c)),
                  Log INFO ''DPI System initialized''])))"

text \<open>
  The attributes as \<^verbatim>\<open>__init__\<close> leaves them, for a loaded configuration and a run id.
\<close>

definition new_dpi_system :: "dpi_config \<Rightarrow> int \<Rightarrow> dpi_system" where
  "new_dpi_system c t =
     \<lparr>config = c, running = False, run_id = t, controller = None,
      traffic_generator = None, topology = None,
      logger_component = None, threads = [], processes = []\<rparr>"

text \<open>
  \<^verbatim>\<open>DPISystem.__init__\<close>: \<^verbatim>\<open>load_config\<close> is its first statement, before
  \<^verbatim>\<open>self.logger = None\<close> and \<^verbatim>\<open>setup_logging\<close>.
\<close>

definition dpi_init ::
  "env \<Rightarrow> (string \<Rightarrow> file_result) \<Rightarrow> string \<Rightarrow> event list
     \<Rightarrow> (exn + dpi_system) \<times> event list" where
  "dpi_init env fs config_file tr =
     (case load_config fs Unset config_file tr of
        (Inl e, tr1) \<Rightarrow> (Inl e, tr1)
      | (Inr c, tr1) \<Rightarrow>
          (case setup_logging env c tr1 of
             (Inl e, tr2) \<Rightarrow> (Inl e, tr2)
           | (Inr u, tr2) \<Rightarrow>
               (case env (tr2 @ [SetRunning False]) Now of
                  Exc e \<Rightarrow> (Inl e, tr2 @ [SetRunning False, Now])
                | Ret t \<Rightarrow>
                    (Inr (new_dpi_system c t), tr2 @ [SetRunning False, Now]))))"

datatype mode = ModeStart | ModeStop | ModeRestart

definition main ::
  "env \<Rightarrow> (string \<Rightarrow> file_result) \<Rightarrow> string \<Rightarrow> mode \<Rightarrow> event list
     \<Rightarrow> (exn + unit) \<times> event list" where
  "main env fs config_file md tr =
     (case dpi_init env fs config_file tr of
        (Inl e, tr1) \<Rightarrow> (Inl e, tr1)
      | (Inr dpi, tr1) \<Rightarrow>
          (case (case md of
                   ModeStart \<Rightarrow> run env (dpi, tr1)
                 | ModeStop \<Rightarrow> stop_system env (dpi, tr1)
                 | ModeRestart \<Rightarrow>
                     andthen (stop_system env)
                     (andthen (emit (Sleep 2)) (run env)) (dpi, tr1)) of
             (r, \<sigma>) \<Rightarrow> (r, snd \<sigma>)))"

section \<open>Observations on traces\<close>

text \<open>The console lines, the writes to the running flag and the exporter threads in a trace.\<close>

fun printed :: "event list \<Rightarrow> string list" where
  "printed [] = []"
| "printed (Print s # es) = s # printed es"
| "printed (e # es) = printed es"

fun flag_writes :: "event list \<Rightarrow> bool list" where
  "flag_writes [] = []"
| "flag_writes (SetRunning b # es) = b # flag_writes es"
| "flag_writes (e # es) = flag_writes es"

fun export_starts :: "event list \<Rightarrow> (yaml_value \<times> string) list" where
  "export_starts [] = []"
| "export_starts (ThreadStart (ExportAfterDelay d f) # es) = (d, f) # export_starts es"
| "export_starts (e # es) = export_starts es"

text \<open>
  Replaying issued events against the oracle, from the history they were issued in: the
  processes whose \<^verbatim>\<open>wait\<close> returned (they exited within the timeout) and the
  processes whose \<^verbatim>\<open>kill\<close> returned.
\<close>

fun waited :: "env \<Rightarrow> event list \<Rightarrow> event list \<Rightarrow> int set" where
  "waited env h [] = {}"
| "waited env h (Wait p t # es) =
     (case env h (Wait p t) of Ret v \<Rightarrow> {p} | Exc e \<Rightarrow> {}) \<union> waited env (h @ [Wait p t]) es"
| "waited env h (e # es) = waited env (h @ [e]) es"

fun killed :: "env \<Rightarrow> event list \<Rightarrow> event list \<Rightarrow> int set" where
  "killed env h [] = {}"
| "killed env h (Kill p # es) =
     (case env h (Kill p) of Ret v \<Rightarrow> {p} | Exc e \<Rightarrow> {}) \<union> killed env (h @ [Kill p]) es"
| "killed env h (e # es) = killed env (h @ [e]) es"

text \<open>
  The calls among issued events that raised, replayed against the oracle from the history
  they were issued in.  Logging, printing, sleeping and the writes of the flag are no calls:
  the oracle is not asked about them.
\<close>

fun is_call :: "event \<Rightarrow> bool" where
  "is_call (Print s) = False"
| "is_call (Log l s) = False"
| "is_call (Sleep d) = False"
| "is_call (SetRunning b) = False"
| "is_call c = True"

fun raised :: "env \<Rightarrow> event list \<Rightarrow> event list \<Rightarrow> event list" where
  "raised env h [] = []"
| "raised env h (c # es) =
     (case env h c of Exc e \<Rightarrow> (if is_call c then [c] else []) | Ret v \<Rightarrow> [])
     @ raised env (h @ [c]) es"

text \<open>
  The calls of \<^verbatim>\<open>stop_system\<close>, by the handler that catches what they raise.  Only the
  \<^verbatim>\<open>try\<close> around the whole shutdown encloses a collaborator's stop call, a
  \<^verbatim>\<open>kill\<close> and a \<^verbatim>\<open>join\<close>; \<^verbatim>\<open>terminate\<close> and \<^verbatim>\<open>wait\<close> are inside the
  \<^verbatim>\<open>try\<close> of their process, whose handler kills the process.
\<close>

fun outer_step :: "event \<Rightarrow> bool" where
  "outer_step StopTrafficGeneration = True"
| "outer_step ControllerStop = True"
| "outer_step LoggerClose = True"
| "outer_step TopologyStop = True"
| "outer_step (Kill p) = True"
| "outer_step (Join t d) = True"
| "outer_step c = False"

fun inner_step :: "event \<Rightarrow> bool" where
  "inner_step (Terminate p) = True"
| "inner_step (Wait p d) = True"
| "inner_step c = False"

fun join_step :: "event \<Rightarrow> bool" where
  "join_step (Join t d) = True"
| "join_step c = False"

text \<open>The stop calls on the collaborators an object has, in the order of the source.\<close>

definition stop_calls :: "dpi_system \<Rightarrow> event list" where
  "stop_calls s =
     (if traffic_generator s \<noteq> None then [StopTrafficGeneration] else [])
     @ (if controller s \<noteq> None then [ControllerStop] else [])
     @ (if logger_component s \<noteq> None then [LoggerClose] else [])
     @ (if topology s \<noteq> None then [TopologyStop] else [])"

text \<open>
  A process is dealt with in a run when \<^verbatim>\<open>terminate\<close> was called on it and its
  \<^verbatim>\<open>wait\<close> or its \<^verbatim>\<open>kill\<close> returned.
\<close>

definition handled :: "env \<Rightarrow> event list \<Rightarrow> event list \<Rightarrow> int \<Rightarrow> bool" where
  "handled env h evs p \<longleftrightarrow>
     Terminate p \<in> set evs \<and> (p \<in> waited env h evs \<or> p \<in> killed env h evs)"

text \<open>
  The events of monitoring: a health snapshot written, and a retrieval of the controller's
  statistics.  An event is in order for an object without controller when it is no
  retrieval of statistics and, if it is a snapshot, the snapshot has the keys
  \<^verbatim>\<open>controller\<close>, \<^verbatim>\<open>logger\<close>, \<^verbatim>\<open>traffic_generator\<close>, \<^verbatim>\<open>topology\<close> (a Python dict
  keeps the order of insertion) and gives \<^verbatim>\<open>stopped\<close> for the controller.
\<close>

fun health_event :: "event \<Rightarrow> bool" where
  "health_event (WriteHealth t H) = True"
| "health_event GetRealTimeStats = True"
| "health_event e = False"

fun health_ok :: "event \<Rightarrow> bool" where
  "health_ok (WriteHealth t H) =
     (map fst H = [''controller'', ''logger'', ''traffic_generator'', ''topology'']
      \<and> map_of H ''controller'' = Some ''stopped'')"
| "health_ok GetRealTimeStats = False"
| "health_ok e = True"

text \<open>
  The states of a run: the object as the constructor returns it, in a world without
  history, and then calls of its methods and of the bodies of its threads (a turn of the
  monitoring loop, the delayed export), in any number and any order.
\<close>

inductive reachable :: "env \<Rightarrow> (string \<Rightarrow> file_result) \<Rightarrow> string \<Rightarrow> state \<Rightarrow> bool"
  for env fs config_file where
  constructed:
    "dpi_init env fs config_file [] = (Inr dpi, tr) \<Longrightarrow> reachable env fs config_file (dpi, tr)"
| after_compile_p4_program:
    "reachable env fs config_file \<sigma> \<Longrightarrow>
     reachable env fs config_file (snd (compile_p4_program env \<sigma>))"
| after_start_mininet_topology:
    "reachable env fs config_file \<sigma> \<Longrightarrow>
     reachable env fs config_file (snd (start_mininet_topology env \<sigma>))"
| after_start_p4_controller:
    "reachable env fs config_file \<sigma> \<Longrightarrow>
     reachable env fs config_file (snd (start_p4_controller env \<sigma>))"
| after_start_packet_logger:
    "reachable env fs config_file \<sigma> \<Longrightarrow>
     reachable env fs config_file (snd (start_packet_logger env \<sigma>))"
| after_start_traffic_generator:
    "reachable env fs config_file \<sigma> \<Longrightarrow>
     reachable env fs config_file (snd (start_traffic_generator env \<sigma>))"
| after_start_web_interface:
    "reachable env fs config_file \<sigma> \<Longrightarrow>
     reachable env fs config_file (snd (start_web_interface env \<sigma>))"
| after_start_monitoring:
    "reachable env fs config_file \<sigma> \<Longrightarrow>
     reachable env fs config_file (snd (start_monitoring env \<sigma>))"
| after_schedule_initial_export:
    "reachable env fs config_file \<sigma> \<Longrightarrow>
     reachable env fs config_file (snd (schedule_initial_export env \<sigma>))"
| after_export_after_delay:
    "reachable env fs config_file \<sigma> \<Longrightarrow>
     reachable env fs config_file (snd (export_after_delay env delay db_file \<sigma>))"
| after_start_system:
    "reachable env fs config_file \<sigma> \<Longrightarrow>
     reachable env fs config_file (snd (start_system env \<sigma>))"
| after_check_system_health:
    "reachable env fs config_file \<sigma> \<Longrightarrow>
     reachable env fs config_file (snd (check_system_health env \<sigma>))"
| after_log_statistics:
    "reachable env fs config_file \<sigma> \<Longrightarrow>
     reachable env fs config_file (snd (log_statistics env \<sigma>))"
| after_monitor_iteration:
    "reachable env fs config_file \<sigma> \<Longrightarrow>
     reachable env fs config_file (snd (monitor_iteration env \<sigma>))"
| after_stop_system:
    "reachable env fs config_file \<sigma> \<Longrightarrow>
     reachable env fs config_file (snd (stop_system env \<sigma>))"
| after_run:
    "reachable env fs config_file \<sigma> \<Longrightarrow>
     reachable env fs config_file (snd (run env \<sigma>))"

section \<open>Notions for the proofs\<close>

definition preserves :: "(state \<Rightarrow> bool) \<Rightarrow> 'a prog \<Rightarrow> bool" where
  "preserves I m = (\<forall>\<sigma>. I \<sigma> \<longrightarrow> I (snd (m \<sigma>)))"

named_theorems pres

text \<open>A program that always returns a value: no exception leaves it.\<close>

definition returns :: "'a prog \<Rightarrow> bool" where
  "returns m = (\<forall>\<sigma>. \<exists>x. fst (m \<sigma>) = Inr x)"

named_theorems rets

text \<open>
  The events that the compile step and the six startup actions can issue, and the
  attributes they never assign.  A state predicate is stable under startup when such an
  event, or a change of the other attributes, does not break it.
\<close>

fun startup_event :: "event \<Rightarrow> bool" where
  "startup_event (Log l s) = True"
| "startup_event (Sleep d) = True"
| "startup_event (SubprocessRun cmd) = True"
| "startup_event (PathExists p) = True"
| "startup_event (ShutilMove a b) = True"
| "startup_event NewDPITopology = True"
| "startup_event NewPacketLogger = True"
| "startup_event NewTrafficGenerator = True"
| "startup_event (ThreadStart t) = (t = CreateTopology \<or> t = TrafficGeneration \<or> t = MonitorSystem)"
| "startup_event TopologyStartTraffic = True"
| "startup_event (Popen cmd) = True"
| "startup_event e = False"

definition same_core :: "dpi_system \<Rightarrow> dpi_system \<Rightarrow> bool" where
  "same_core s s' = (config s' = config s \<and> running s' = running s \<and> run_id s' = run_id s
     \<and> controller s' = controller s)"

definition startup_stable :: "(state \<Rightarrow> bool) \<Rightarrow> bool" where
  "startup_stable I =
     ((\<forall>s tr e. startup_event e \<longrightarrow> I (s, tr) \<longrightarrow> I (s, tr @ [e]))
      \<and> (\<forall>s s' tr. same_core s s' \<longrightarrow> I (s, tr) \<longrightarrow> I (s', tr)))"

text \<open>A state whose trace extends a given one.\<close>

definition extends :: "event list \<Rightarrow> state \<Rightarrow> bool" where
  "extends tr0 \<sigma> = (\<exists>evs. snd \<sigma> = tr0 @ evs)"

text \<open>
  The console lines of the component loop when its first \<open>j\<close> actions return success
  and, if there is one, the next returns failure: before each call ``Starting'', after it
  ``OK'' or ``failed''.
\<close>

fun sequencer_lines :: "string list \<Rightarrow> nat \<Rightarrow> string list" where
  "sequencer_lines [] j = []"
| "sequencer_lines (n # ns) 0 = [''DEBUG: Starting '' @ n @ ''...'', ''DEBUG: '' @ n @ '' failed'']"
| "sequencer_lines (n # ns) (Suc j) =
     [''DEBUG: Starting '' @ n @ ''...'', ''DEBUG: '' @ n @ '' OK''] @ sequencer_lines ns j"

definition export_of :: "dpi_config \<Rightarrow> yaml_value \<times> string" where
  "export_of c = (opt_default (YInt 20) (initial_delay_seconds c),
                  opt_default ''logs/packets.db'' (database_file c))"

text \<open>
  A run of shutdown steps in which no call outside the per-process handlers raised; and
  what holds of any run of such steps: a \<^verbatim>\<open>terminate\<close> or \<^verbatim>\<open>wait\<close> that raised is
  followed by the \<^verbatim>\<open>kill\<close> of its process, and the run ends in an exception exactly
  when its last call is one outside the per-process handlers and raised.
\<close>

definition clean :: "env \<Rightarrow> event list \<Rightarrow> event list \<Rightarrow> bool" where
  "clean env h evs \<longleftrightarrow> filter outer_step (raised env h evs) = []"

definition run_post :: "env \<Rightarrow> event list \<Rightarrow> event list \<Rightarrow> exn + 'a \<Rightarrow> bool" where
  "run_post env h evs r \<longleftrightarrow>
     (\<forall>p. Terminate p \<in> set (raised env h evs) \<or> Wait p 5 \<in> set (raised env h evs)
        \<longrightarrow> Kill p \<in> set evs) \<and>
     (case r of
        Inr x \<Rightarrow> clean env h evs
      | Inl e \<Rightarrow> (\<exists>pre c. evs = pre @ [c] \<and> outer_step c \<and> env (h @ pre) c = Exc e
                    \<and> clean env h pre))"

text \<open>
  A sequence of shutdown steps run on an object \<open>s\<close>: it leaves \<open>s\<close> as it is, issues only
  events of the kind \<open>K\<close>, and when it returns it has issued the calls \<open>A\<close> and dealt with
  the processes \<open>P\<close>.
\<close>

definition runs ::
  "env \<Rightarrow> 'a prog \<Rightarrow> dpi_system \<Rightarrow> (event \<Rightarrow> bool) \<Rightarrow> event set \<Rightarrow> int set \<Rightarrow> bool" where
  "runs env m s K A P \<longleftrightarrow>
     (\<forall>tr. \<exists>r evs. m (s, tr) = (r, (s, tr @ evs)) \<and> list_all K evs \<and> run_post env tr evs r \<and>
        ((\<exists>x. r = Inr x) \<longrightarrow> A \<subseteq> set evs \<and> (\<forall>p\<in>P. handled env tr evs p)))"

definition process_step :: "event \<Rightarrow> bool" where
  "process_step c \<longleftrightarrow> \<not> join_step c \<and> (outer_step c \<or> inner_step c)"

text \<open>The controller reference is \<open>c\<close>, and every event of the trace satisfies \<open>P\<close>.\<close>

definition kept :: "unit option \<Rightarrow> (event \<Rightarrow> bool) \<Rightarrow> state \<Rightarrow> bool" where
  "kept c P \<sigma> \<longleftrightarrow> controller (fst \<sigma>) = c \<and> list_all P (snd \<sigma>)"

section \<open>Lemmas on programs and on startup\<close>

lemmas prog_defs = return_val_def raise_exn_def bind_prog_def andthen_def try_except_def
  try_finally_def extern_def emit_def get_self_def modify_self_def set_running_def

lemma preservesD: "preserves I m \<Longrightarrow> I \<sigma> \<Longrightarrow> I (snd (m \<sigma>))"
  unfolding preserves_def by blast

lemma preserves_return_val [pres]: "preserves I (return_val x)"
  by (simp add: preserves_def return_val_def)

lemma preserves_raise_exn [pres]: "preserves I (raise_exn e)"
  by (simp add: preserves_def raise_exn_def)

lemma preserves_get_self [pres]: "preserves I get_self"
  by (simp add: preserves_def get_self_def)

lemma preserves_bind_prog [pres]:
  assumes "preserves I m" and "\<And>x. preserves I (f x)"
  shows "preserves I (bind_prog m f)"
  unfolding preserves_def
proof (intro allI impI)
  fix \<sigma> assume i: "I \<sigma>"
  obtain r \<sigma>' where m: "m \<sigma> = (r, \<sigma>')" by (cases "m \<sigma>")
  from preservesD [OF assms(1) i] m have i': "I \<sigma>'" by simp
  show "I (snd (bind_prog m f \<sigma>))"
  proof (cases r)
    case (Inl e)
    with m i' show ?thesis by (simp add: bind_prog_def)
  next
    case (Inr x)
    with m preservesD [OF assms(2) i', of x] show ?thesis by (simp add: bind_prog_def)
  qed
qed

lemma preserves_andthen [pres]:
  "preserves I m \<Longrightarrow> preserves I k \<Longrightarrow> preserves I (andthen m k)"
  by (simp add: andthen_def preserves_bind_prog)

lemma preserves_try_except [pres]:
  assumes "preserves I m" and "preserves I h"
  shows "preserves I (try_except m h)"
  unfolding preserves_def
proof (intro allI impI)
  fix \<sigma> assume i: "I \<sigma>"
  obtain r \<sigma>' where m: "m \<sigma> = (r, \<sigma>')" by (cases "m \<sigma>")
  from preservesD [OF assms(1) i] m have i': "I \<sigma>'" by simp
  show "I (snd (try_except m h \<sigma>))"
    using m i' preservesD [OF assms(2) i'] by (cases r) (simp_all add: try_except_def)
qed

lemma preserves_try_finally [pres]:
  assumes "preserves I m" and "preserves I f"
  shows "preserves I (try_finally m f)"
  unfolding preserves_def
proof (intro allI impI)
  fix \<sigma> assume i: "I \<sigma>"
  obtain r \<sigma>' where m: "m \<sigma> = (r, \<sigma>')" by (cases "m \<sigma>")
  from preservesD [OF assms(1) i] m have i': "I \<sigma>'" by simp
  obtain r2 \<sigma>2 where f: "f \<sigma>' = (r2, \<sigma>2)" by (cases "f \<sigma>'")
  from preservesD [OF assms(2) i'] f have "I \<sigma>2" by simp
  then show "I (snd (try_finally m f \<sigma>))"
    using m f by (cases r2) (simp_all add: try_finally_def)
qed

lemma preserves_if [pres]:
  "preserves I a \<Longrightarrow> preserves I b \<Longrightarrow> preserves I (if c then a else b)"
  by simp

lemma preserves_emit:
  "(\<And>s tr. I (s, tr) \<Longrightarrow> I (s, tr @ [c])) \<Longrightarrow> preserves I (emit c)"
  by (simp add: preserves_def emit_def)

lemma preserves_extern:
  "(\<And>s tr. I (s, tr) \<Longrightarrow> I (s, tr @ [c])) \<Longrightarrow> preserves I (extern env c)"
  by (simp add: preserves_def extern_def split: outcome.splits)

lemma preserves_modify_self:
  "(\<And>s tr. I (s, tr) \<Longrightarrow> I (f s, tr)) \<Longrightarrow> preserves I (modify_self f)"
  by (simp add: preserves_def modify_self_def)

lemma returnsD: "returns m \<Longrightarrow> \<exists>x. fst (m \<sigma>) = Inr x"
  unfolding returns_def by blast

lemma returns_return_val [rets]: "returns (return_val x)"
  by (simp add: returns_def return_val_def)

lemma returns_emit [rets]: "returns (emit c)"
  by (simp add: returns_def emit_def)

lemma returns_get_self [rets]: "returns get_self"
  by (simp add: returns_def get_self_def)

lemma returns_modify_self [rets]: "returns (modify_self f)"
  by (simp add: returns_def modify_self_def)

lemma returns_bind_prog [rets]:
  assumes "returns m" and "\<And>x. returns (f x)"
  shows "returns (bind_prog m f)"
  unfolding returns_def
proof
  fix \<sigma>
  from returnsD [OF assms(1)] obtain x where "fst (m \<sigma>) = Inr x" by blast
  then obtain \<sigma>' where "m \<sigma> = (Inr x, \<sigma>')" by (cases "m \<sigma>") simp
  moreover from returnsD [OF assms(2)] obtain y where "fst (f x \<sigma>') = Inr y" by blast
  ultimately show "\<exists>y. fst (bind_prog m f \<sigma>) = Inr y" by (simp add: bind_prog_def)
qed

lemma returns_andthen [rets]: "returns m \<Longrightarrow> returns k \<Longrightarrow> returns (andthen m k)"
  by (simp add: andthen_def returns_bind_prog)

lemma returns_try_except [rets]:
  assumes "returns h"
  shows "returns (try_except m h)"
  unfolding returns_def
proof
  fix \<sigma>
  obtain r \<sigma>' where m: "m \<sigma> = (r, \<sigma>')" by (cases "m \<sigma>")
  from returnsD [OF assms] obtain y where "fst (h \<sigma>') = Inr y" by blast
  with m show "\<exists>x. fst (try_except m h \<sigma>) = Inr x"
    by (cases r) (simp_all add: try_except_def)
qed

lemma returns_if [rets]: "returns a \<Longrightarrow> returns b \<Longrightarrow> returns (if c then a else b)"
  by simp

lemma returns_set_running [rets]: "returns (set_running b)"
  unfolding set_running_def by (intro rets)

lemma returns_compile_p4_program: "returns (compile_p4_program env)"
  unfolding compile_p4_program_def by (intro rets)

lemma returns_start_mininet_topology: "returns (start_mininet_topology env)"
  unfolding start_mininet_topology_def by (intro rets)

lemma returns_start_p4_controller: "returns (start_p4_controller env)"
  unfolding start_p4_controller_def by (intro rets)

lemma returns_start_packet_logger: "returns (start_packet_logger env)"
  unfolding start_packet_logger_def by (intro rets)

lemma returns_start_traffic_generator: "returns (start_traffic_generator env)"
  unfolding start_traffic_generator_def by (intro rets)

lemma returns_start_web_interface: "returns (start_web_interface env)"
  unfolding start_web_interface_def by (intro rets)

lemma returns_start_monitoring: "returns (start_monitoring env)"
  unfolding start_monitoring_def by (intro rets)

lemma returns_stop_system: "returns (stop_system env)"
  unfolding stop_system_def by (intro rets)

lemma startup_stable_event:
  "startup_stable I \<Longrightarrow> startup_event e \<Longrightarrow> I (s, tr) \<Longrightarrow> I (s, tr @ [e])"
  unfolding startup_stable_def by blast

lemma startup_stable_core:
  "startup_stable I \<Longrightarrow> same_core s s' \<Longrightarrow> I (s, tr) \<Longrightarrow> I (s', tr)"
  unfolding startup_stable_def by blast

lemma stable_emit:
  "startup_stable I \<Longrightarrow> startup_event e \<Longrightarrow> preserves I (emit e)"
  by (rule preserves_emit) (rule startup_stable_event)

lemma stable_extern:
  "startup_stable I \<Longrightarrow> startup_event e \<Longrightarrow> preserves I (extern env e)"
  by (rule preserves_extern) (rule startup_stable_event)

lemma stable_modify:
  "startup_stable I \<Longrightarrow> (\<And>s. same_core s (f s)) \<Longrightarrow> preserves I (modify_self f)"
  by (rule preserves_modify_self) (blast intro: startup_stable_core)

lemma preserves_compile_p4_program:
  assumes "startup_stable I" shows "preserves I (compile_p4_program env)"
  unfolding compile_p4_program_def
  by (intro pres stable_emit [OF assms] stable_extern [OF assms]) simp_all

lemma preserves_start_mininet_topology:
  assumes "startup_stable I" shows "preserves I (start_mininet_topology env)"
  unfolding start_mininet_topology_def
  by (intro pres stable_emit [OF assms] stable_extern [OF assms] stable_modify [OF assms])
     (simp_all add: same_core_def)

lemma preserves_launch_workers:
  assumes "startup_stable I" shows "preserves I (launch_workers env sws)"
  by (induction sws)
     (auto intro!: pres stable_emit [OF assms] stable_extern [OF assms] stable_modify [OF assms]
        simp: same_core_def)

lemma preserves_start_p4_controller:
  assumes "startup_stable I" shows "preserves I (start_p4_controller env)"
  unfolding start_p4_controller_def
  by (intro pres stable_emit [OF assms] preserves_launch_workers [OF assms]) simp_all

lemma preserves_start_packet_logger:
  assumes "startup_stable I" shows "preserves I (start_packet_logger env)"
  unfolding start_packet_logger_def
  by (intro pres stable_emit [OF assms] stable_extern [OF assms] stable_modify [OF assms])
     (simp_all add: same_core_def)

lemma preserves_start_traffic_generator:
  assumes "startup_stable I" shows "preserves I (start_traffic_generator env)"
  unfolding start_traffic_generator_def
  by (intro pres stable_emit [OF assms] stable_extern [OF assms] stable_modify [OF assms])
     (simp_all add: same_core_def)

lemma preserves_start_web_interface:
  assumes "startup_stable I" shows "preserves I (start_web_interface env)"
  unfolding start_web_interface_def
  by (intro pres stable_emit [OF assms] stable_extern [OF assms] stable_modify [OF assms])
     (simp_all add: same_core_def)

lemma preserves_start_monitoring:
  assumes "startup_stable I" shows "preserves I (start_monitoring env)"
  unfolding start_monitoring_def
  by (intro pres stable_emit [OF assms] stable_extern [OF assms] stable_modify [OF assms])
     (simp_all add: same_core_def)

lemma preserves_components:
  assumes "startup_stable I" and "c \<in> set (components env)"
  shows "preserves I (snd c)"
  using assms(2)
  by (auto simp: components_def preserves_start_mininet_topology [OF assms(1)]
      preserves_start_p4_controller [OF assms(1)] preserves_start_packet_logger [OF assms(1)]
      preserves_start_traffic_generator [OF assms(1)] preserves_start_web_interface [OF assms(1)]
      preserves_start_monitoring [OF assms(1)])

lemma returns_components:
  assumes "c \<in> set (components env)"
  shows "returns (snd c)"
  using assms
  by (auto simp: components_def returns_start_mininet_topology
      returns_start_p4_controller returns_start_packet_logger
      returns_start_traffic_generator returns_start_web_interface
      returns_start_monitoring)

text \<open>What the startup events leave alone.\<close>

lemma printed_append: "printed (a @ b) = printed a @ printed b"
  by (induction a rule: printed.induct) simp_all

lemma flag_writes_append: "flag_writes (a @ b) = flag_writes a @ flag_writes b"
  by (induction a rule: flag_writes.induct) simp_all

lemma export_starts_append: "export_starts (a @ b) = export_starts a @ export_starts b"
  by (induction a rule: export_starts.induct) simp_all

lemma printed_startup_event: "startup_event e \<Longrightarrow> printed [e] = []"
  by (cases e) simp_all

lemma flag_writes_startup_event: "startup_event e \<Longrightarrow> flag_writes [e] = []"
  by (cases e) simp_all

lemma export_starts_startup_event: "startup_event e \<Longrightarrow> export_starts [e] = []"
proof (cases e)
  case (ThreadStart t)
  assume "startup_event e"
  with ThreadStart show ?thesis by (cases t) auto
qed simp_all

lemma stable_printed: "startup_stable (\<lambda>\<sigma>. printed (snd \<sigma>) = p)"
  by (simp add: startup_stable_def printed_append printed_startup_event)

lemma stable_flag_writes: "startup_stable (\<lambda>\<sigma>. flag_writes (snd \<sigma>) = p)"
  by (simp add: startup_stable_def flag_writes_append flag_writes_startup_event)

lemma stable_export_starts: "startup_stable (\<lambda>\<sigma>. export_starts (snd \<sigma>) = p)"
  by (simp add: startup_stable_def export_starts_append export_starts_startup_event)

lemma stable_running: "startup_stable (\<lambda>\<sigma>. running (fst \<sigma>) = b)"
  by (simp add: startup_stable_def same_core_def)

lemma stable_extends: "startup_stable (\<lambda>\<sigma>. \<exists>evs. snd \<sigma> = tr0 @ evs)"
  by (auto simp: startup_stable_def)

lemma extends_refl: "extends (snd \<sigma>) \<sigma>"
  by (simp add: extends_def)

lemma ext_emit: "preserves (extends tr0) (emit c)"
  by (rule preserves_emit) (auto simp: extends_def)

lemma ext_extern: "preserves (extends tr0) (extern env c)"
  by (rule preserves_extern) (auto simp: extends_def)

lemma ext_modify: "preserves (extends tr0) (modify_self f)"
  by (rule preserves_modify_self) (auto simp: extends_def)

lemma ext_set_running: "preserves (extends tr0) (set_running b)"
  unfolding set_running_def by (intro pres ext_emit ext_modify)

lemma stable_extends': "startup_stable (extends tr0)"
  by (auto simp: startup_stable_def extends_def)

lemma issued_extends:
  assumes "preserves (extends (snd \<sigma>)) m"
  shows "snd (snd (m \<sigma>)) = snd \<sigma> @ issued m \<sigma>"
proof -
  from preservesD [OF assms extends_refl] obtain evs where "snd (snd (m \<sigma>)) = snd \<sigma> @ evs"
    by (auto simp: extends_def)
  then show ?thesis by (simp add: issued_def)
qed

text \<open>Rules for running a sequence step by step.\<close>

lemma andthen_emit: "andthen (emit c) k \<sigma> = k (fst \<sigma>, snd \<sigma> @ [c])"
  by (simp add: prog_defs)

lemma andthen_set_running:
  "andthen (set_running b) k \<sigma> = k ((fst \<sigma>)\<lparr>running := b\<rparr>, snd \<sigma> @ [SetRunning b])"
  by (simp add: prog_defs)

lemma bind_prog_result: "m \<sigma> = (Inr x, \<sigma>') \<Longrightarrow> bind_prog m f \<sigma> = f x \<sigma>'"
  by (simp add: bind_prog_def)

lemma andthen_result: "m \<sigma> = (Inr x, \<sigma>') \<Longrightarrow> andthen m k \<sigma> = k \<sigma>'"
  by (simp add: andthen_def bind_prog_def)

lemma returns_result: "returns m \<Longrightarrow> \<exists>x \<sigma>'. m \<sigma> = (Inr x, \<sigma>')"
  using returnsD [of m \<sigma>] by (cases "m \<sigma>") auto

lemma run_components_step:
  assumes "snd c (fst \<sigma>, snd \<sigma> @ [Print (''DEBUG: Starting '' @ fst c @ ''...''),
             Log INFO (''Starting '' @ fst c @ ''...'')]) = (Inr ok, \<sigma>2)"
  shows "run_components (c # cs) \<sigma> =
     (if ok then run_components cs
        (fst \<sigma>2, snd \<sigma>2 @ [Print (''DEBUG: '' @ fst c @ '' OK''), Sleep 2])
      else (Inr False, (fst \<sigma>2, snd \<sigma>2 @ [Print (''DEBUG: '' @ fst c @ '' failed''),
              Log ERROR (''Failed to start '' @ fst c)])))"
  using assms by (simp add: prog_defs)

lemma run_components_printed:
  assumes "\<And>c. c \<in> set cs \<Longrightarrow> returns (snd c)"
    and "\<And>c p. c \<in> set cs \<Longrightarrow> preserves (\<lambda>\<sigma>. printed (snd \<sigma>) = p) (snd c)"
  shows "\<exists>j\<le>length cs. fst (run_components cs \<sigma>) = Inr (j = length cs)
     \<and> printed (snd (snd (run_components cs \<sigma>))) = printed (snd \<sigma>) @ sequencer_lines (map fst cs) j"
  using assms
proof (induction cs arbitrary: \<sigma>)
  case Nil
  show ?case by (simp add: return_val_def)
next
  case (Cons c cs)
  let ?\<sigma>1 = "(fst \<sigma>, snd \<sigma> @ [Print (''DEBUG: Starting '' @ fst c @ ''...''),
             Log INFO (''Starting '' @ fst c @ ''...'')])"
  have "returns (snd c)" by (rule Cons.prems(1)) simp
  from returns_result [OF this, of ?\<sigma>1] obtain ok \<sigma>2 where
    a: "snd c ?\<sigma>1 = (Inr ok, \<sigma>2)" by blast
  have "printed (snd (snd (snd c ?\<sigma>1))) = printed (snd ?\<sigma>1)"
    using preservesD [OF Cons.prems(2) [of c "printed (snd ?\<sigma>1)"], of ?\<sigma>1] by simp
  with a have p2: "printed (snd \<sigma>2) = printed (snd \<sigma>) @ [''DEBUG: Starting '' @ fst c @ ''...'']"
    by (simp add: printed_append)
  show ?case
  proof (cases ok)
    case False
    with run_components_step [OF a] p2 have
      "fst (run_components (c # cs) \<sigma>) = Inr (0 = length (c # cs))
       \<and> printed (snd (snd (run_components (c # cs) \<sigma>)))
           = printed (snd \<sigma>) @ sequencer_lines (map fst (c # cs)) 0"
      by (simp add: printed_append)
    then show ?thesis by blast
  next
    case True
    let ?\<sigma>3 = "(fst \<sigma>2, snd \<sigma>2 @ [Print (''DEBUG: '' @ fst c @ '' OK''), Sleep 2])"
    from True run_components_step [OF a] have
      r: "run_components (c # cs) \<sigma> = run_components cs ?\<sigma>3" by simp
    from Cons.IH [of ?\<sigma>3] Cons.prems obtain j where
      j: "j \<le> length cs" "fst (run_components cs ?\<sigma>3) = Inr (j = length cs)"
        "printed (snd (snd (run_components cs ?\<sigma>3)))
           = printed (snd ?\<sigma>3) @ sequencer_lines (map fst cs) j"
      by auto
    with r p2 have
      "Suc j \<le> length (c # cs) \<and> fst (run_components (c # cs) \<sigma>) = Inr (Suc j = length (c # cs))
       \<and> printed (snd (snd (run_components (c # cs) \<sigma>)))
           = printed (snd \<sigma>) @ sequencer_lines (map fst (c # cs)) (Suc j)"
      by (simp add: printed_append)
    then show ?thesis by blast
  qed
qed

lemma preserves_run_components:
  assumes "\<And>c. c \<in> set cs \<Longrightarrow> preserves I (snd c)"
    and "\<And>s tr e. startup_event e \<or> (\<exists>x. e = Print x) \<Longrightarrow> I (s, tr) \<Longrightarrow> I (s, tr @ [e])"
  shows "preserves I (run_components cs)"
  using assms(1)
proof (induction cs)
  case Nil
  show ?case by (simp add: pres)
next
  case (Cons c cs)
  show ?case
    unfolding run_components.simps
    by (intro pres preserves_emit Cons.IH Cons.prems assms(2)) simp_all
qed

lemma schedule_result:
  "try_except (schedule_initial_export env) (emit (Log WARNING w)) \<sigma> =
     (Inr (), (fst \<sigma>, snd \<sigma> @
        ThreadStart (ExportAfterDelay
            (opt_default (YInt 20) (initial_delay_seconds (config (fst \<sigma>))))
            (opt_default ''logs/packets.db'' (database_file (config (fst \<sigma>)))))
        # (case env (snd \<sigma>) (ThreadStart (ExportAfterDelay
            (opt_default (YInt 20) (initial_delay_seconds (config (fst \<sigma>))))
            (opt_default ''logs/packets.db'' (database_file (config (fst \<sigma>)))))) of
             Ret v \<Rightarrow> [] | Exc e \<Rightarrow> [Log WARNING w])))"
  by (simp add: schedule_initial_export_def prog_defs split: outcome.splits)

lemma start_system_unfold:
  assumes "compile_p4_program env (s\<lparr>running := True\<rparr>,
             tr @ [Print ''DEBUG: start_system called'', Log INFO ''Starting P4 DPI System...'',
                   SetRunning True, Print ''DEBUG: compiling P4...'']) = (Inr b, \<sigma>1)"
    and "run_components (components env) (fst \<sigma>1, snd \<sigma>1 @ [Print ''DEBUG: compile OK''])
           = (Inr b2, \<sigma>3)"
  shows "start_system env (s, tr) =
     (if \<not> b then (Inr False, (fst \<sigma>1, snd \<sigma>1 @ [Print ''DEBUG: compile failed'',
                       Log ERROR ''Failed to compile P4 program'']))
      else if \<not> b2 then (Inr False, \<sigma>3)
      else (Inr True, (fst \<sigma>3, snd \<sigma>3 @
        ThreadStart (ExportAfterDelay
            (opt_default (YInt 20) (initial_delay_seconds (config (fst \<sigma>3))))
            (opt_default ''logs/packets.db'' (database_file (config (fst \<sigma>3)))))
        # (case env (snd \<sigma>3) (ThreadStart (ExportAfterDelay
            (opt_default (YInt 20) (initial_delay_seconds (config (fst \<sigma>3))))
            (opt_default ''logs/packets.db'' (database_file (config (fst \<sigma>3)))))) of
             Ret v \<Rightarrow> [] | Exc e \<Rightarrow> [Log WARNING ''Failed to schedule initial export''])
        @ [Print ''DEBUG: All components started'',
           Log INFO ''P4 DPI System started successfully''])))"
proof -
  let ?body = "andthen (emit (Print ''DEBUG: compiling P4...''))
       (bind_prog (compile_p4_program env) (\<lambda>compiled.
          if \<not> compiled then
            andthen (emit (Print ''DEBUG: compile failed''))
            (andthen (emit (Log ERROR ''Failed to compile P4 program''))
              (return_val False))
          else
            andthen (emit (Print ''DEBUG: compile OK''))
            (bind_prog (run_components (components env)) (\<lambda>started.
               if \<not> started then return_val False
               else
                 andthen
                   (try_except (schedule_initial_export env)
                      (emit (Log WARNING ''Failed to schedule initial export'')))
                 (andthen (emit (Print ''DEBUG: All components started''))
                 (andthen (emit (Log INFO ''P4 DPI System started successfully''))
                   (return_val True)))))))"
  let ?\<sigma>a = "(s\<lparr>running := True\<rparr>,
             tr @ [Print ''DEBUG: start_system called'', Log INFO ''Starting P4 DPI System...'',
                   SetRunning True])"
  have body: "?body ?\<sigma>a = (if \<not> b then (Inr False, (fst \<sigma>1, snd \<sigma>1 @ [Print ''DEBUG: compile failed'',
                       Log ERROR ''Failed to compile P4 program'']))
      else if \<not> b2 then (Inr False, \<sigma>3)
      else (Inr True, (fst \<sigma>3, snd \<sigma>3 @
        ThreadStart (ExportAfterDelay
            (opt_default (YInt 20) (initial_delay_seconds (config (fst \<sigma>3))))
            (opt_default ''logs/packets.db'' (database_file (config (fst \<sigma>3)))))
        # (case env (snd \<sigma>3) (ThreadStart (ExportAfterDelay
            (opt_default (YInt 20) (initial_delay_seconds (config (fst \<sigma>3))))
            (opt_default ''logs/packets.db'' (database_file (config (fst \<sigma>3)))))) of
             Ret v \<Rightarrow> [] | Exc e \<Rightarrow> [Log WARNING ''Failed to schedule initial export''])
        @ [Print ''DEBUG: All components started'',
           Log INFO ''P4 DPI System started successfully''])))"
    by (simp add: andthen_def bind_prog_def emit_def return_val_def assms schedule_result)
  have "start_system env (s, tr) = try_except ?body
       (andthen (emit (Print ''DEBUG: Exception in start_system''))
       (andthen (emit (Log ERROR ''Error starting system''))
         (return_val False))) ?\<sigma>a"
    by (simp add: start_system_def andthen_emit andthen_set_running)
  also have "\<dots> = ?body ?\<sigma>a"
    using body by (simp add: try_except_def)
  finally show ?thesis using body by simp
qed

lemma ext_schedule_initial_export: "preserves (extends tr0) (schedule_initial_export env)"
  unfolding schedule_initial_export_def by (intro pres ext_extern)

lemma preserves_run_components_startup:
  assumes "startup_stable I" and "\<And>s tr x. I (s, tr) \<Longrightarrow> I (s, tr @ [Print x])"
  shows "preserves I (run_components (components env))"
proof (rule preserves_run_components)
  fix c assume "c \<in> set (components env)"
  then show "preserves I (snd c)" by (rule preserves_components [OF assms(1)])
next
  fix s tr e assume "startup_event e \<or> (\<exists>x. e = Print x)" and "I (s, tr)"
  then show "I (s, tr @ [e])"
    using startup_stable_event [OF assms(1)] assms(2) by blast
qed

lemma ext_run_components_startup: "preserves (extends tr0) (run_components (components env))"
  by (rule preserves_run_components_startup [OF stable_extends']) (auto simp: extends_def)

lemma ext_start_system: "preserves (extends tr0) (start_system env)"
  unfolding start_system_def
  by (intro pres ext_emit ext_set_running ext_schedule_initial_export
      ext_run_components_startup preserves_compile_p4_program [OF stable_extends'])

lemma stable_config: "startup_stable (\<lambda>\<sigma>. config (fst \<sigma>) = c)"
  by (simp add: startup_stable_def same_core_def)

lemma start_system_summary:
  "\<exists>b j. j \<le> length (components env)
     \<and> outcome_of (start_system env) (s, tr) = Inr (b \<and> j = length (components env))
     \<and> printed (issued (start_system env) (s, tr)) =
         [''DEBUG: start_system called'', ''DEBUG: compiling P4...''] @
         (if b then [''DEBUG: compile OK''] @ sequencer_lines (map fst (components env)) j
               @ (if j = length (components env) then [''DEBUG: All components started''] else [])
          else [''DEBUG: compile failed''])
     \<and> flag_writes (issued (start_system env) (s, tr)) = [True]
     \<and> export_starts (issued (start_system env) (s, tr)) =
         (if b \<and> j = length (components env) then [export_of (config s)] else [])
     \<and> running (self_after (start_system env) (s, tr))"
proof -
  let ?tr0 = "tr @ [Print ''DEBUG: start_system called'', Log INFO ''Starting P4 DPI System...'',
                   SetRunning True, Print ''DEBUG: compiling P4...'']"
  let ?\<sigma>0 = "(s\<lparr>running := True\<rparr>, ?tr0)"
  let ?cs = "components env"
  from returns_result [OF returns_compile_p4_program, of env ?\<sigma>0] obtain b \<sigma>1 where
    c: "compile_p4_program env ?\<sigma>0 = (Inr b, \<sigma>1)" by blast
  have c_snd: "snd (compile_p4_program env ?\<sigma>0) = \<sigma>1" using c by simp
  have p1: "printed (snd \<sigma>1) = printed ?tr0"
    using preservesD [of "\<lambda>\<sigma>. printed (snd \<sigma>) = printed ?tr0" "compile_p4_program env" ?\<sigma>0,
        OF preserves_compile_p4_program [OF stable_printed]]
    by (simp only: c_snd snd_conv)
  have f1: "flag_writes (snd \<sigma>1) = flag_writes ?tr0"
    using preservesD [of "\<lambda>\<sigma>. flag_writes (snd \<sigma>) = flag_writes ?tr0" "compile_p4_program env" ?\<sigma>0,
        OF preserves_compile_p4_program [OF stable_flag_writes]]
    by (simp only: c_snd snd_conv)
  have e1: "export_starts (snd \<sigma>1) = export_starts ?tr0"
    using preservesD [of "\<lambda>\<sigma>. export_starts (snd \<sigma>) = export_starts ?tr0" "compile_p4_program env" ?\<sigma>0,
        OF preserves_compile_p4_program [OF stable_export_starts]]
    by (simp only: c_snd snd_conv)
  have r1: "running (fst \<sigma>1) = True"
    using preservesD [of "\<lambda>\<sigma>. running (fst \<sigma>) = True" "compile_p4_program env" ?\<sigma>0,
        OF preserves_compile_p4_program [OF stable_running]]
    by (simp add: c_snd)
  have g1: "config (fst \<sigma>1) = config s"
    using preservesD [of "\<lambda>\<sigma>. config (fst \<sigma>) = config s" "compile_p4_program env" ?\<sigma>0,
        OF preserves_compile_p4_program [OF stable_config]]
    by (simp add: c_snd)
  let ?\<sigma>2 = "(fst \<sigma>1, snd \<sigma>1 @ [Print ''DEBUG: compile OK''])"
  have A: "\<And>c. c \<in> set ?cs \<Longrightarrow> returns (snd c)" by (rule returns_components)
  have B: "\<And>c p. c \<in> set ?cs \<Longrightarrow> preserves (\<lambda>\<sigma>. printed (snd \<sigma>) = p) (snd c)"
    by (rule preserves_components [OF stable_printed])
  from run_components_printed [of ?cs ?\<sigma>2, OF A B]
  obtain j where j: "j \<le> length ?cs" "fst (run_components ?cs ?\<sigma>2) = Inr (j = length ?cs)"
    "printed (snd (snd (run_components ?cs ?\<sigma>2))) = printed (snd ?\<sigma>2) @ sequencer_lines (map fst ?cs) j"
    by blast
  obtain \<sigma>3 where rc: "run_components ?cs ?\<sigma>2 = (Inr (j = length ?cs), \<sigma>3)"
    using j(2) by (cases "run_components ?cs ?\<sigma>2") auto
  have rc_snd: "snd (run_components ?cs ?\<sigma>2) = \<sigma>3" using rc by simp
  have p3: "printed (snd \<sigma>3) = printed (snd ?\<sigma>2) @ sequencer_lines (map fst ?cs) j"
    using j(3) by (simp only: rc_snd)
  have f3: "flag_writes (snd \<sigma>3) = flag_writes (snd ?\<sigma>2)"
    using preservesD [of "\<lambda>\<sigma>. flag_writes (snd \<sigma>) = flag_writes (snd ?\<sigma>2)" "run_components ?cs" ?\<sigma>2,
        OF preserves_run_components_startup [OF stable_flag_writes]]
    by (auto simp: rc_snd flag_writes_append flag_writes_startup_event)
  have e3: "export_starts (snd \<sigma>3) = export_starts (snd ?\<sigma>2)"
    using preservesD [of "\<lambda>\<sigma>. export_starts (snd \<sigma>) = export_starts (snd ?\<sigma>2)" "run_components ?cs" ?\<sigma>2,
        OF preserves_run_components_startup [OF stable_export_starts]]
    by (auto simp: rc_snd export_starts_append export_starts_startup_event)
  have r3: "running (fst \<sigma>3)"
    using preservesD [of "\<lambda>\<sigma>. running (fst \<sigma>) = True" "run_components ?cs" ?\<sigma>2,
        OF preserves_run_components_startup [OF stable_running]] r1
    by (auto simp: rc_snd)
  have g3: "config (fst \<sigma>3) = config s"
    using preservesD [of "\<lambda>\<sigma>. config (fst \<sigma>) = config s" "run_components ?cs" ?\<sigma>2,
        OF preserves_run_components_startup [OF stable_config]] g1
    by (auto simp: rc_snd)
  note u = start_system_unfold [OF c rc]
  have ext: "snd (snd (start_system env (s, tr))) = tr @ issued (start_system env) (s, tr)"
    using issued_extends [of "(s, tr)" "start_system env", OF ext_start_system] by simp
  have P: "printed (snd (snd (start_system env (s, tr)))) = printed tr @
         [''DEBUG: start_system called'', ''DEBUG: compiling P4...''] @
         (if b then [''DEBUG: compile OK''] @ sequencer_lines (map fst ?cs) j
               @ (if j = length ?cs then [''DEBUG: All components started''] else [])
          else [''DEBUG: compile failed''])"
    using p1 p3 by (simp add: u printed_append split: outcome.splits)
  have F: "flag_writes (snd (snd (start_system env (s, tr)))) = flag_writes tr @ [True]"
    using f1 f3 by (simp add: u flag_writes_append split: outcome.splits)
  have E: "export_starts (snd (snd (start_system env (s, tr)))) = export_starts tr @
         (if b \<and> j = length ?cs then [export_of (config s)] else [])"
    using e1 e3 g3 by (simp add: u export_starts_append export_of_def split: outcome.splits)
  have R: "running (self_after (start_system env) (s, tr))"
    using r1 r3 by (simp add: u self_after_def)
  have O: "outcome_of (start_system env) (s, tr) = Inr (b \<and> j = length ?cs)"
    by (simp add: u outcome_of_def)
  from P F E have "printed (issued (start_system env) (s, tr)) =
         [''DEBUG: start_system called'', ''DEBUG: compiling P4...''] @
         (if b then [''DEBUG: compile OK''] @ sequencer_lines (map fst ?cs) j
               @ (if j = length ?cs then [''DEBUG: All components started''] else [])
          else [''DEBUG: compile failed''])"
    and "flag_writes (issued (start_system env) (s, tr)) = [True]"
    and "export_starts (issued (start_system env) (s, tr)) =
         (if b \<and> j = length ?cs then [export_of (config s)] else [])"
    unfolding ext by (simp_all only: printed_append flag_writes_append export_starts_append same_append_eq)
  with j(1) O R show ?thesis by blast
qed

lemma start_system_prefix:
  "\<exists>evs. issued (start_system env) (s, tr) =
     [Print ''DEBUG: start_system called'', Log INFO ''Starting P4 DPI System...'',
      SetRunning True] @ evs"
proof -
  let ?tr3 = "tr @ [Print ''DEBUG: start_system called'', Log INFO ''Starting P4 DPI System...'',
                   SetRunning True]"
  let ?rest = "try_except
       (andthen (emit (Print ''DEBUG: compiling P4...''))
       (bind_prog (compile_p4_program env) (\<lambda>compiled.
          if \<not> compiled then
            andthen (emit (Print ''DEBUG: compile failed''))
            (andthen (emit (Log ERROR ''Failed to compile P4 program''))
              (return_val False))
          else
            andthen (emit (Print ''DEBUG: compile OK''))
            (bind_prog (run_components (components env)) (\<lambda>started.
               if \<not> started then return_val False
               else
                 andthen
                   (try_except (schedule_initial_export env)
                      (emit (Log WARNING ''Failed to schedule initial export'')))
                 (andthen (emit (Print ''DEBUG: All components started''))
                 (andthen (emit (Log INFO ''P4 DPI System started successfully''))
                   (return_val True))))))))
       (andthen (emit (Print ''DEBUG: Exception in start_system''))
       (andthen (emit (Log ERROR ''Error starting system''))
         (return_val False)))"
  have eq: "start_system env (s, tr) = ?rest (s\<lparr>running := True\<rparr>, ?tr3)"
    by (simp add: start_system_def andthen_emit andthen_set_running)
  have "preserves (extends ?tr3) ?rest"
    by (intro pres ext_emit ext_schedule_initial_export
        ext_run_components_startup preserves_compile_p4_program [OF stable_extends'])
  from preservesD [OF this, of "(s\<lparr>running := True\<rparr>, ?tr3)"]
  obtain evs where "snd (snd (?rest (s\<lparr>running := True\<rparr>, ?tr3))) = ?tr3 @ evs"
    by (auto simp: extends_def)
  with eq have "issued (start_system env) (s, tr) =
     [Print ''DEBUG: start_system called'', Log INFO ''Starting P4 DPI System...'',
      SetRunning True] @ evs"
    by (simp add: issued_def)
  then show ?thesis by blast
qed

subsection \<open>The component loop, in terms of what the actions return\<close>

lemma run_components_Cons_True:
  assumes "run_components (c # cs) \<sigma> = (Inr True, \<sigma>')"
  shows "\<exists>\<tau>. snd c (fst \<sigma>, snd \<sigma> @ [Print (''DEBUG: Starting '' @ fst c @ ''...''),
             Log INFO (''Starting '' @ fst c @ ''...'')]) = (Inr True, \<tau>)
        \<and> run_components cs (fst \<tau>, snd \<tau> @ [Print (''DEBUG: '' @ fst c @ '' OK''), Sleep 2])
            = (Inr True, \<sigma>')"
proof -
  let ?\<sigma>1 = "(fst \<sigma>, snd \<sigma> @ [Print (''DEBUG: Starting '' @ fst c @ ''...''),
             Log INFO (''Starting '' @ fst c @ ''...'')])"
  obtain r \<tau> where a: "snd c ?\<sigma>1 = (r, \<tau>)" by (cases "snd c ?\<sigma>1")
  show ?thesis
  proof (cases r)
    case (Inl e)
    with a assms show ?thesis by (simp add: prog_defs)
  next
    case (Inr ok)
    with a have "snd c ?\<sigma>1 = (Inr ok, \<tau>)" by simp
    from run_components_step [OF this, of cs] assms a Inr show ?thesis
      by (cases ok) simp_all
  qed
qed

lemma run_components_reach_fail:
  assumes "k < length cs"
    and "run_components (take k cs) \<sigma> = (Inr True, \<sigma>')"
    and "snd (cs ! k) (fst \<sigma>', snd \<sigma>' @ [Print (''DEBUG: Starting '' @ fst (cs ! k) @ ''...''),
             Log INFO (''Starting '' @ fst (cs ! k) @ ''...'')]) = (Inr False, \<tau>)"
  shows "run_components cs \<sigma> =
     (Inr False, (fst \<tau>, snd \<tau> @ [Print (''DEBUG: '' @ fst (cs ! k) @ '' failed''),
        Log ERROR (''Failed to start '' @ fst (cs ! k))]))"
  using assms
proof (induction cs arbitrary: k \<sigma>)
  case Nil
  then show ?case by simp
next
  case (Cons c cs)
  show ?case
  proof (cases k)
    case 0
    with Cons.prems(2) have "\<sigma>' = \<sigma>" by (simp add: return_val_def)
    with Cons.prems(3) 0 show ?thesis
      using run_components_step [of c \<sigma> False \<tau> cs] by simp
  next
    case (Suc k')
    with Cons.prems(2) have "run_components (c # take k' cs) \<sigma> = (Inr True, \<sigma>')" by simp
    from run_components_Cons_True [OF this] obtain \<tau>1 where
      a: "snd c (fst \<sigma>, snd \<sigma> @ [Print (''DEBUG: Starting '' @ fst c @ ''...''),
             Log INFO (''Starting '' @ fst c @ ''...'')]) = (Inr True, \<tau>1)"
      and b: "run_components (take k' cs)
            (fst \<tau>1, snd \<tau>1 @ [Print (''DEBUG: '' @ fst c @ '' OK''), Sleep 2])
            = (Inr True, \<sigma>')"
      by blast
    have "run_components cs (fst \<tau>1, snd \<tau>1 @ [Print (''DEBUG: '' @ fst c @ '' OK''), Sleep 2])
       = (Inr False, (fst \<tau>, snd \<tau> @ [Print (''DEBUG: '' @ fst (cs ! k') @ '' failed''),
        Log ERROR (''Failed to start '' @ fst (cs ! k'))]))"
      using Cons.prems(1,3) Suc by (intro Cons.IH [OF _ b]) simp_all
    with run_components_step [OF a, of cs] Suc show ?thesis by simp
  qed
qed

lemma run_components_reach_earlier:
  assumes "k \<le> length cs" and "i < k"
    and "run_components (take k cs) \<sigma> = (Inr True, \<sigma>')"
  shows "\<exists>\<sigma>i \<tau>i. run_components (take i cs) \<sigma> = (Inr True, \<sigma>i)
     \<and> snd (cs ! i) (fst \<sigma>i, snd \<sigma>i @ [Print (''DEBUG: Starting '' @ fst (cs ! i) @ ''...''),
             Log INFO (''Starting '' @ fst (cs ! i) @ ''...'')]) = (Inr True, \<tau>i)"
  using assms
proof (induction cs arbitrary: k i \<sigma>)
  case Nil
  then show ?case by simp
next
  case (Cons c cs)
  from Cons.prems(2) obtain k' where k: "k = Suc k'" by (cases k) simp_all
  with Cons.prems(3) have "run_components (c # take k' cs) \<sigma> = (Inr True, \<sigma>')" by simp
  from run_components_Cons_True [OF this] obtain \<tau>1 where
    a: "snd c (fst \<sigma>, snd \<sigma> @ [Print (''DEBUG: Starting '' @ fst c @ ''...''),
           Log INFO (''Starting '' @ fst c @ ''...'')]) = (Inr True, \<tau>1)"
    and b: "run_components (take k' cs)
          (fst \<tau>1, snd \<tau>1 @ [Print (''DEBUG: '' @ fst c @ '' OK''), Sleep 2])
          = (Inr True, \<sigma>')"
    by blast
  show ?case
  proof (cases i)
    case 0
    with a show ?thesis by (simp add: return_val_def)
  next
    case (Suc i')
    from Cons.prems(1,2) k Suc have "k' \<le> length cs" "i' < k'" by simp_all
    from Cons.IH [OF this b] obtain \<sigma>i \<tau>i where
      c: "run_components (take i' cs)
            (fst \<tau>1, snd \<tau>1 @ [Print (''DEBUG: '' @ fst c @ '' OK''), Sleep 2]) = (Inr True, \<sigma>i)"
      and d: "snd (cs ! i') (fst \<sigma>i, snd \<sigma>i @
             [Print (''DEBUG: Starting '' @ fst (cs ! i') @ ''...''),
              Log INFO (''Starting '' @ fst (cs ! i') @ ''...'')]) = (Inr True, \<tau>i)"
      by blast
    from run_components_step [OF a, of "take i' cs"] c
    have "run_components (take i (c # cs)) \<sigma> = (Inr True, \<sigma>i)" by (simp add: Suc)
    with d Suc show ?thesis by simp
  qed
qed

section \<open>Lemmas on shutdown\<close>

lemma raised_append: "raised env h (a @ b) = raised env h a @ raised env (h @ a) b"
  by (induction a arbitrary: h) simp_all

lemma waited_append: "waited env h (a @ b) = waited env h a \<union> waited env (h @ a) b"
  by (induction env h a rule: waited.induct) auto

lemma killed_append: "killed env h (a @ b) = killed env h a \<union> killed env (h @ a) b"
  by (induction env h a rule: killed.induct) auto

lemma clean_append: "clean env h (a @ b) \<longleftrightarrow> clean env h a \<and> clean env (h @ a) b"
  by (simp add: clean_def raised_append)

lemma handled_appendI1: "handled env h a p \<Longrightarrow> handled env h (a @ b) p"
  by (auto simp: handled_def waited_append killed_append)

lemma handled_appendI2: "handled env (h @ a) b p \<Longrightarrow> handled env h (a @ b) p"
  by (auto simp: handled_def waited_append killed_append)

lemma run_post_append:
  assumes "run_post env h a (Inr x)" and "run_post env (h @ a) b r"
  shows "run_post env h (a @ b) r"
proof (cases r)
  case (Inr y)
  with assms show ?thesis
    by (auto simp: run_post_def raised_append clean_append)
next
  case (Inl e)
  with assms(2) obtain pre c where b: "b = pre @ [c]" "outer_step c"
    "env (h @ a @ pre) c = Exc e" "clean env (h @ a) pre"
    by (auto simp: run_post_def)
  have "\<exists>pre' c'. a @ b = pre' @ [c'] \<and> outer_step c' \<and> env (h @ pre') c' = Exc e
          \<and> clean env h pre'"
  proof (intro exI conjI)
    show "a @ b = (a @ pre) @ [c]" using b by simp
    show "outer_step c" by (rule b)
    show "env (h @ a @ pre) c = Exc e" by (rule b)
    show "clean env h (a @ pre)" using assms(1) b(4) by (simp add: clean_append run_post_def)
  qed
  with assms Inl show ?thesis
    by (auto simp: run_post_def raised_append)
qed

lemma runsI:
  assumes "\<And>tr. \<exists>r evs. m (s, tr) = (r, (s, tr @ evs)) \<and> list_all K evs
      \<and> run_post env tr evs r
      \<and> ((\<exists>x. r = Inr x) \<longrightarrow> A \<subseteq> set evs \<and> (\<forall>p\<in>P. handled env tr evs p))"
  shows "runs env m s K A P"
  unfolding runs_def using assms by blast

lemma runsD:
  assumes "runs env m s K A P"
  shows "\<exists>r evs. m (s, tr) = (r, (s, tr @ evs)) \<and> list_all K evs \<and> run_post env tr evs r \<and>
        (\<forall>x. r = Inr x \<longrightarrow> A \<subseteq> set evs \<and> (\<forall>p\<in>P. handled env tr evs p))"
  using assms unfolding runs_def by blast

lemma runs_return_val: "runs env (return_val x) s K {} {}"
proof (rule runsI)
  fix tr
  have "return_val x (s, tr) = (Inr x, (s, tr @ []))" by (simp add: return_val_def)
  moreover have "run_post env tr [] (Inr x :: exn + 'a)" by (simp add: run_post_def clean_def)
  moreover have "list_all K []" by simp
  ultimately show "\<exists>r evs. return_val x (s, tr) = (r, (s, tr @ evs)) \<and> list_all K evs
        \<and> run_post env tr evs r
        \<and> ((\<exists>x. r = Inr x) \<longrightarrow> {} \<subseteq> set evs \<and> (\<forall>p\<in>{}. handled env tr evs p))"
    by blast
qed

lemma runs_andthen:
  assumes "runs env m1 s K A1 P1" and "runs env m2 s K A2 P2"
  shows "runs env (andthen m1 m2) s K (A1 \<union> A2) (P1 \<union> P2)"
proof (rule runsI)
  fix tr
  from runsD [OF assms(1), of tr] obtain r1 e1
    where 1: "m1 (s, tr) = (r1, (s, tr @ e1))" "run_post env tr e1 r1" "list_all K e1"
    "\<And>x. r1 = Inr x \<Longrightarrow> A1 \<subseteq> set e1 \<and> (\<forall>p\<in>P1. handled env tr e1 p)"
    by blast
  show "\<exists>r evs. andthen m1 m2 (s, tr) = (r, (s, tr @ evs)) \<and> list_all K evs
        \<and> run_post env tr evs r
        \<and> ((\<exists>x. r = Inr x) \<longrightarrow> A1 \<union> A2 \<subseteq> set evs \<and> (\<forall>p\<in>P1 \<union> P2. handled env tr evs p))"
  proof (cases r1)
    case (Inl e)
    have "andthen m1 m2 (s, tr) = (Inl e, (s, tr @ e1))"
      using 1(1) Inl by (simp add: andthen_def bind_prog_def)
    moreover have "run_post env tr e1 (Inl e :: exn + 'b)"
      using 1(2) Inl by (simp add: run_post_def)
    ultimately show ?thesis using 1(3) by blast
  next
    case (Inr x)
    from runsD [OF assms(2), of "tr @ e1"] obtain r2 e2
      where 2: "m2 (s, tr @ e1) = (r2, (s, (tr @ e1) @ e2))"
      "run_post env (tr @ e1) e2 r2" "list_all K e2"
      "\<And>x. r2 = Inr x \<Longrightarrow> A2 \<subseteq> set e2 \<and> (\<forall>p\<in>P2. handled env (tr @ e1) e2 p)"
      by blast
    have a: "andthen m1 m2 (s, tr) = (r2, (s, tr @ (e1 @ e2)))"
      using 1(1) 2(1) Inr by (simp add: andthen_def bind_prog_def)
    have b: "run_post env tr (e1 @ e2) r2"
      using 1(2) 2(2) Inr by (blast intro: run_post_append)
    have k: "list_all K (e1 @ e2)" using 1(3) 2(3) by simp
    have c: "(\<exists>x. r2 = Inr x) \<longrightarrow>
        A1 \<union> A2 \<subseteq> set (e1 @ e2) \<and> (\<forall>p\<in>P1 \<union> P2. handled env tr (e1 @ e2) p)"
    proof
      assume "\<exists>x. r2 = Inr x"
      then obtain y where y: "r2 = Inr y" by blast
      from 1(4) [OF Inr] 2(4) [OF y]
      show "A1 \<union> A2 \<subseteq> set (e1 @ e2) \<and> (\<forall>p\<in>P1 \<union> P2. handled env tr (e1 @ e2) p)"
        by (auto intro: handled_appendI1 handled_appendI2)
    qed
    from a b c k show ?thesis by blast
  qed
qed

lemma runs_get_self:
  assumes "runs env (f s) s K A P"
  shows "runs env (bind_prog get_self f) s K A P"
proof -
  have "bind_prog get_self f (s, tr) = f s (s, tr)" for tr
    by (simp add: bind_prog_def get_self_def)
  with assms show ?thesis by (simp add: runs_def)
qed

lemma runs_extern:
  assumes "outer_step c" and "K c"
  shows "runs env (extern env c) s K {c} {}"
proof (rule runsI)
  fix tr
  have c: "\<And>p. Terminate p \<noteq> c" "\<And>p t. Wait p t \<noteq> c" "is_call c"
    using assms by (cases c; simp)+
  have k: "list_all K [c]" using assms by simp
  show "\<exists>r evs. extern env c (s, tr) = (r, (s, tr @ evs)) \<and> list_all K evs
          \<and> run_post env tr evs r \<and>
        ((\<exists>x. r = Inr x) \<longrightarrow> {c} \<subseteq> set evs \<and> (\<forall>p\<in>{}. handled env tr evs p))"
  proof (cases "env tr c")
    case (Ret v)
    have "extern env c (s, tr) = (Inr v, (s, tr @ [c]))"
      using Ret by (simp add: prog_defs)
    moreover have "run_post env tr [c] (Inr v :: exn + int)"
      using Ret c by (simp add: run_post_def clean_def)
    ultimately show ?thesis using k by auto
  next
    case (Exc e)
    have "extern env c (s, tr) = (Inl e, (s, tr @ [c]))"
      using Exc by (simp add: prog_defs)
    moreover have "run_post env tr [c] (Inl e :: exn + int)"
      using Exc c assms by (simp add: run_post_def clean_def)
    ultimately show ?thesis using k by auto
  qed
qed

lemma runs_collab:
  assumes "outer_step c" and "K c"
  shows "runs env
     (bind_prog get_self (\<lambda>s. if f s then andthen (extern env c) (return_val ())
                              else return_val ()))
     s K (if f s then {c} else {}) {}"
proof (rule runs_get_self, cases "f s")
  case True
  have "runs env (extern env c) s K {c} {}"
    using assms by (rule runs_extern)
  from runs_andthen [OF this runs_return_val [where x = "()"]] True
  show "runs env (if f s then andthen (extern env c) (return_val ()) else return_val ())
     s K (if f s then {c} else {}) {}"
    by simp
next
  case False
  then show "runs env (if f s then andthen (extern env c) (return_val ()) else return_val ())
     s K (if f s then {c} else {}) {}"
    by (simp add: runs_return_val)
qed

lemma runs_stop_one:
  assumes K: "K (Terminate p)" "K (Wait p 5)" "K (Kill p)"
  shows "runs env
     (try_except
        (andthen (extern env (Terminate p)) (andthen (extern env (Wait p 5)) (return_val ())))
        (andthen (extern env (Kill p)) (return_val ()))) s K {} {p}"
proof (rule runsI)
  fix tr
  let ?m = "try_except
        (andthen (extern env (Terminate p)) (andthen (extern env (Wait p 5)) (return_val ())))
        (andthen (extern env (Kill p)) (return_val ()))"
  let ?goal = "\<exists>r evs. ?m (s, tr) = (r, (s, tr @ evs)) \<and> list_all K evs
        \<and> run_post env tr evs r
        \<and> ((\<exists>x. r = Inr x) \<longrightarrow> {} \<subseteq> set evs \<and> (\<forall>p\<in>{p}. handled env tr evs p))"
  have fin: "?goal" if "?m (s, tr) = (r, (s, tr @ evs))" "list_all K evs"
    "run_post env tr evs r"
    "(\<exists>x. r = Inr x) \<longrightarrow> handled env tr evs p" for r :: "exn + unit" and evs
    using that by auto
  show ?goal
  proof (cases "env tr (Terminate p)")
    case T: (Ret v)
    show ?thesis
    proof (cases "env (tr @ [Terminate p]) (Wait p 5)")
      case W: (Ret w)
      show ?thesis
        by (rule fin [of "Inr ()" "[Terminate p, Wait p 5]"])
          (simp_all add: prog_defs T W K run_post_def clean_def handled_def)
    next
      case W: (Exc e)
      show ?thesis
      proof (cases "env (tr @ [Terminate p, Wait p 5]) (Kill p)")
        case K': (Ret k)
        show ?thesis
          by (rule fin [of "Inr ()" "[Terminate p, Wait p 5, Kill p]"])
            (simp_all add: prog_defs T W K K' run_post_def clean_def handled_def)
      next
        case K': (Exc e')
        show ?thesis
          by (rule fin [of "Inl e'" "[Terminate p, Wait p 5, Kill p]"])
            (simp_all add: prog_defs T W K K' run_post_def clean_def handled_def
               exI [of _ "[Terminate p, Wait p 5]"])
      qed
    qed
  next
    case T: (Exc e)
    show ?thesis
    proof (cases "env (tr @ [Terminate p]) (Kill p)")
      case K': (Ret k)
      show ?thesis
        by (rule fin [of "Inr ()" "[Terminate p, Kill p]"])
          (simp_all add: prog_defs T K K' run_post_def clean_def handled_def)
    next
      case K': (Exc e')
      show ?thesis
        by (rule fin [of "Inl e'" "[Terminate p, Kill p]"])
          (simp_all add: prog_defs T K K' run_post_def clean_def handled_def
             exI [of _ "[Terminate p]"])
    qed
  qed
qed

lemma runs_stop_processes:
  assumes "\<And>p. K (Terminate p)" "\<And>p. K (Wait p 5)" "\<And>p. K (Kill p)"
  shows "runs env (stop_processes env nps) s K {} (snd ` set nps)"
proof (induction nps)
  case Nil
  show ?case by (simp add: runs_return_val)
next
  case (Cons np nps)
  have "runs env (stop_processes env (np # nps)) s K ({} \<union> {}) ({snd np} \<union> snd ` set nps)"
    unfolding stop_processes.simps
    by (rule runs_andthen [OF runs_stop_one Cons.IH]) (rule assms)+
  then show ?case by simp
qed

lemma runs_join_threads:
  assumes "\<And>t. K (Join t 5)"
  shows "runs env (join_threads env ts) s K ((\<lambda>t. Join t 5) ` set ts) {}"
proof (induction ts)
  case Nil
  show ?case by (simp add: runs_return_val)
next
  case (Cons t ts)
  have "runs env (extern env (Join t 5)) s K {Join t 5} {}"
    by (rule runs_extern) (simp_all add: assms)
  from runs_andthen [OF this Cons.IH]
  show ?case by simp
qed

lemma andthen_assoc: "andthen (andthen a b) c = andthen a (andthen b c)"
  by (auto simp: andthen_def bind_prog_def fun_eq_iff split: prod.splits sum.splits)

lemma outer_is_call: "outer_step c \<Longrightarrow> is_call c"
  by (cases c) simp_all

lemma run_post_Inl_not_clean:
  assumes "run_post env h evs (Inl e)"
  shows "\<not> clean env h evs"
proof -
  from assms obtain pre c where "evs = pre @ [c]" "outer_step c" "env (h @ pre) c = Exc e"
    by (auto simp: run_post_def)
  then show ?thesis
    by (simp add: clean_def raised_append outer_is_call)
qed

lemma run_post_Inl_raised:
  assumes "run_post env h evs (Inl e)"
  shows "\<exists>pre c. evs = pre @ [c] \<and> filter outer_step (raised env h evs) = [c]
           \<and> clean env h pre"
proof -
  from assms obtain pre c where *: "evs = pre @ [c]" "outer_step c" "env (h @ pre) c = Exc e"
    "clean env h pre"
    by (auto simp: run_post_def)
  then have "filter outer_step (raised env h evs) = [c]"
    by (simp add: clean_def raised_append outer_is_call)
  with * show ?thesis by blast
qed

lemma runs_weaken:
  assumes "runs env m s K A P" and "A' \<subseteq> A" and "P' \<subseteq> P"
  shows "runs env m s K A' P'"
proof (rule runsI)
  fix tr
  from runsD [OF assms(1), of tr] obtain r evs
    where 1: "m (s, tr) = (r, (s, tr @ evs))" "run_post env tr evs r" "list_all K evs"
    "\<And>x. r = Inr x \<Longrightarrow> A \<subseteq> set evs \<and> (\<forall>p\<in>P. handled env tr evs p)"
    by blast
  have "(\<exists>x. r = Inr x) \<longrightarrow> A' \<subseteq> set evs \<and> (\<forall>p\<in>P'. handled env tr evs p)"
    using 1(4) assms(2,3) by blast
  with 1(1,2,3) show "\<exists>r evs. m (s, tr) = (r, (s, tr @ evs)) \<and> list_all K evs
        \<and> run_post env tr evs r
        \<and> ((\<exists>x. r = Inr x) \<longrightarrow> A' \<subseteq> set evs \<and> (\<forall>p\<in>P'. handled env tr evs p))"
    by blast
qed

lemma stop_system_summary:
  fixes env s tr
  defines "h \<equiv> tr @ [Log INFO ''Stopping P4 DPI System...'', SetRunning False]"
  shows "\<exists>(r :: exn + unit) e1 e2.
    list_all process_step e1 \<and> list_all join_step e2 \<and> run_post env h (e1 @ e2) r \<and>
    (clean env h e1 \<longrightarrow>
       set (stop_calls s) \<subseteq> set e1 \<and> (\<forall>p\<in>snd ` set (processes s). handled env h e1 p)) \<and>
    ((\<exists>x. r = Inr x) \<longrightarrow> (\<lambda>t. Join t 5) ` set (threads s) \<subseteq> set e2) \<and>
    stop_system env (s, tr) =
      (Inr (), (s\<lparr>running := False\<rparr>,
         h @ e1 @ e2 @ [case r of Inr x \<Rightarrow> Log INFO ''P4 DPI System stopped''
                                | Inl e \<Rightarrow> Log ERROR ''Error stopping system'']))"
proof -
  let ?s = "s\<lparr>running := False\<rparr>"
  let ?b1 = "bind_prog get_self (\<lambda>s.
          if traffic_generator s \<noteq> None
          then andthen (extern env StopTrafficGeneration) (return_val ())
          else return_val ())"
  let ?b2 = "bind_prog get_self (\<lambda>s.
          if controller s \<noteq> None
          then andthen (extern env ControllerStop) (return_val ())
          else return_val ())"
  let ?b3 = "bind_prog get_self (\<lambda>s.
          if logger_component s \<noteq> None
          then andthen (extern env LoggerClose) (return_val ())
          else return_val ())"
  let ?b4 = "bind_prog get_self (\<lambda>s.
          if topology s \<noteq> None
          then andthen (extern env TopologyStop) (return_val ())
          else return_val ())"
  let ?b5 = "bind_prog get_self (\<lambda>s. stop_processes env (processes s))"
  let ?ph1 = "andthen ?b1 (andthen ?b2 (andthen ?b3 (andthen ?b4 ?b5)))"
  let ?ph2 = "bind_prog get_self (\<lambda>s. join_threads env (threads s))"
  let ?info = "Log INFO ''P4 DPI System stopped''"
  let ?error = "Log ERROR ''Error stopping system''"
  let ?block = "try_except (andthen ?ph1 (andthen ?ph2 (emit ?info))) (emit ?error)"
  have unfold: "stop_system env (s, tr) = ?block (?s, h)"
    by (simp add: stop_system_def h_def andthen_assoc set_running_def)
      (simp add: andthen_def bind_prog_def emit_def modify_self_def)
  have r1: "runs env ?b1 ?s process_step
      (if traffic_generator ?s \<noteq> None then {StopTrafficGeneration} else {}) {}"
    by (rule runs_collab) (simp_all add: process_step_def)
  have r2: "runs env ?b2 ?s process_step
      (if controller ?s \<noteq> None then {ControllerStop} else {}) {}"
    by (rule runs_collab) (simp_all add: process_step_def)
  have r3: "runs env ?b3 ?s process_step
      (if logger_component ?s \<noteq> None then {LoggerClose} else {}) {}"
    by (rule runs_collab) (simp_all add: process_step_def)
  have r4: "runs env ?b4 ?s process_step
      (if topology ?s \<noteq> None then {TopologyStop} else {}) {}"
    by (rule runs_collab) (simp_all add: process_step_def)
  have r5: "runs env ?b5 ?s process_step {} (snd ` set (processes ?s))"
    by (rule runs_get_self, rule runs_stop_processes) (simp_all add: process_step_def)
  have ph1: "runs env ?ph1 ?s process_step (set (stop_calls s)) (snd ` set (processes s))"
    by (rule runs_weaken
          [OF runs_andthen [OF r1 runs_andthen [OF r2 runs_andthen [OF r3 runs_andthen [OF r4 r5]]]]])
      (auto simp: stop_calls_def)
  have "runs env ?ph2 ?s join_step ((\<lambda>t. Join t 5) ` set (threads ?s)) {}"
    by (rule runs_get_self, rule runs_join_threads) simp
  then have ph2: "runs env ?ph2 ?s join_step ((\<lambda>t. Join t 5) ` set (threads s)) {}"
    by simp
  from runsD [OF ph1, of h] obtain r1 e1 where 1: "?ph1 (?s, h) = (r1, (?s, h @ e1))"
    "list_all process_step e1" "run_post env h e1 r1"
    "\<And>x. r1 = Inr x \<Longrightarrow>
       set (stop_calls s) \<subseteq> set e1 \<and> (\<forall>p\<in>snd ` set (processes s). handled env h e1 p)"
    by blast
  show ?thesis
  proof (cases r1)
    case (Inl e)
    have a: "?block (?s, h) = (Inr (), (?s, h @ e1 @ [] @ [?error]))"
      using 1(1) Inl by (simp add: try_except_def andthen_def bind_prog_def emit_def)
    have b: "run_post env h (e1 @ []) (Inl e :: exn + unit)"
      using 1(3) Inl by (simp add: run_post_def)
    have c: "\<not> clean env h e1"
      using 1(3) Inl by (auto dest: run_post_Inl_not_clean)
    show ?thesis
      by (intro exI [of _ "Inl e"] exI [of _ e1] exI [of _ "[]"])
        (use a b c 1(2) unfold in simp)
  next
    case (Inr x)
    from runsD [OF ph2, of "h @ e1"] obtain r2 e2
      where 2: "?ph2 (?s, h @ e1) = (r2, (?s, (h @ e1) @ e2))"
      "list_all join_step e2" "run_post env (h @ e1) e2 r2"
      "\<And>x. r2 = Inr x \<Longrightarrow> (\<lambda>t. Join t 5) ` set (threads s) \<subseteq> set e2"
      by blast
    have b: "run_post env h (e1 @ e2) r2"
      using 1(3) 2(3) Inr by (blast intro: run_post_append)
    have a: "?block (?s, h) = (Inr (), (?s, h @ e1 @ e2 @
        [case r2 of Inr x \<Rightarrow> ?info | Inl e \<Rightarrow> ?error]))"
    proof (cases r2)
      case Inl
      with 1(1) 2(1) Inr show ?thesis
        by (simp add: try_except_def andthen_def bind_prog_def emit_def)
    next
      case r2: (Inr y)
      with 1(1) 2(1) Inr show ?thesis
        by (simp add: try_except_def andthen_def bind_prog_def emit_def)
    qed
    show ?thesis
      by (intro exI [of _ r2] exI [of _ e1] exI [of _ e2])
        (use a b 1(2) 1(4) [OF Inr] 2(2) 2(4) unfold in auto)
  qed
qed


lemma flag_writes_steps:
  "list_all (\<lambda>c. outer_step c \<or> inner_step c) evs \<Longrightarrow> flag_writes evs = []"
proof (induction evs)
  case Nil
  show ?case by simp
next
  case (Cons c evs)
  then show ?case by (cases c) simp_all
qed

lemma steps_no_log:
  "list_all (\<lambda>c. outer_step c \<or> inner_step c) evs \<Longrightarrow> Log l m \<notin> set evs"
  by (induction evs) auto

lemma process_step_step: "list_all process_step evs \<Longrightarrow> list_all (\<lambda>c. outer_step c \<or> inner_step c) evs"
  by (induction evs) (auto simp: process_step_def)

lemma join_step_step: "list_all join_step evs \<Longrightarrow> list_all (\<lambda>c. outer_step c \<or> inner_step c) evs"
proof (induction evs)
  case Nil
  show ?case by simp
next
  case (Cons c evs)
  then show ?case by (cases c) simp_all
qed

lemma stop_system_cases:
  "\<exists>(r :: exn + unit) e1 e2.
    stop_system env \<sigma> =
      (Inr (), ((fst \<sigma>)\<lparr>running := False\<rparr>,
         (snd \<sigma> @ [Log INFO ''Stopping P4 DPI System...'', SetRunning False]) @ e1 @ e2 @
         [case r of Inr x \<Rightarrow> Log INFO ''P4 DPI System stopped''
                  | Inl e \<Rightarrow> Log ERROR ''Error stopping system''])) \<and>
    issued (stop_system env) \<sigma> =
       [Log INFO ''Stopping P4 DPI System...'', SetRunning False] @ e1 @ e2 @
       [case r of Inr x \<Rightarrow> Log INFO ''P4 DPI System stopped''
                | Inl e \<Rightarrow> Log ERROR ''Error stopping system''] \<and>
    raised env (snd \<sigma>) (issued (stop_system env) \<sigma>) =
      raised env (snd \<sigma> @ [Log INFO ''Stopping P4 DPI System...'', SetRunning False]) (e1 @ e2) \<and>
    list_all process_step e1 \<and> list_all join_step e2 \<and>
    run_post env (snd \<sigma> @ [Log INFO ''Stopping P4 DPI System...'', SetRunning False]) (e1 @ e2) r \<and>
    (clean env (snd \<sigma> @ [Log INFO ''Stopping P4 DPI System...'', SetRunning False]) e1 \<longrightarrow>
       set (stop_calls (fst \<sigma>)) \<subseteq> set e1 \<and>
       (\<forall>p\<in>snd ` set (processes (fst \<sigma>)).
          handled env (snd \<sigma> @ [Log INFO ''Stopping P4 DPI System...'', SetRunning False]) e1 p)) \<and>
    ((\<exists>x. r = Inr x) \<longrightarrow> (\<lambda>t. Join t 5) ` set (threads (fst \<sigma>)) \<subseteq> set e2)"
proof -
  let ?h = "snd \<sigma> @ [Log INFO ''Stopping P4 DPI System...'', SetRunning False]"
  from stop_system_summary [of env "snd \<sigma>" "fst \<sigma>"]
  obtain r :: "exn + unit" and e1 e2 where *:
    "list_all process_step e1" "list_all join_step e2" "run_post env ?h (e1 @ e2) r"
    "clean env ?h e1 \<longrightarrow> set (stop_calls (fst \<sigma>)) \<subseteq> set e1
        \<and> (\<forall>p\<in>snd ` set (processes (fst \<sigma>)). handled env ?h e1 p)"
    "(\<exists>x. r = Inr x) \<longrightarrow> (\<lambda>t. Join t 5) ` set (threads (fst \<sigma>)) \<subseteq> set e2"
    "stop_system env \<sigma> =
      (Inr (), ((fst \<sigma>)\<lparr>running := False\<rparr>,
         ?h @ e1 @ e2 @ [case r of Inr x \<Rightarrow> Log INFO ''P4 DPI System stopped''
                                | Inl e \<Rightarrow> Log ERROR ''Error stopping system'']))"
    by auto
  have i: "issued (stop_system env) \<sigma> =
       [Log INFO ''Stopping P4 DPI System...'', SetRunning False] @ e1 @ e2 @
       [case r of Inr x \<Rightarrow> Log INFO ''P4 DPI System stopped''
                | Inl e \<Rightarrow> Log ERROR ''Error stopping system'']"
    by (simp add: issued_def *(6))
  have rz: "raised env (snd \<sigma>) (issued (stop_system env) \<sigma>) = raised env ?h (e1 @ e2)"
    unfolding i by (cases r) (simp_all add: raised_append split: outcome.splits)
  from * i rz show ?thesis by blast
qed


lemma clean_subset: "clean env h (a @ b) \<Longrightarrow> clean env h a"
  by (simp add: clean_append)

lemmas stop_eval = stop_system_def prog_defs issued_def outcome_of_def self_after_def
  new_dpi_system_def empty_config_def

subsection \<open>Whole calls of stop_system, start_system and run\<close>

lemma stop_system_flag_unread:
  "stop_system env (s\<lparr>running := b\<rparr>, tr) = stop_system env (s, tr)"
  by (simp add: stop_system_def set_running_def andthen_def bind_prog_def modify_self_def
      emit_def)

lemma stop_system_attempts:
  assumes "filter outer_step (raised env (snd \<sigma>) (issued (stop_system env) \<sigma>)) = []"
  shows "set (stop_calls (fst \<sigma>)) \<subseteq> set (issued (stop_system env) \<sigma>) \<and>
      (\<forall>p\<in>snd ` set (processes (fst \<sigma>)). Terminate p \<in> set (issued (stop_system env) \<sigma>)) \<and>
      (\<forall>t\<in>set (threads (fst \<sigma>)). Join t 5 \<in> set (issued (stop_system env) \<sigma>))"
proof -
  let ?h = "snd \<sigma> @ [Log INFO ''Stopping P4 DPI System...'', SetRunning False]"
  from stop_system_cases [of env \<sigma>] obtain r :: "exn + unit" and e1 e2 where
    i: "issued (stop_system env) \<sigma> =
       [Log INFO ''Stopping P4 DPI System...'', SetRunning False] @ e1 @ e2 @
       [case r of Inr x \<Rightarrow> Log INFO ''P4 DPI System stopped''
                | Inl e \<Rightarrow> Log ERROR ''Error stopping system'']"
    and rz: "raised env (snd \<sigma>) (issued (stop_system env) \<sigma>) = raised env ?h (e1 @ e2)"
    and post: "run_post env ?h (e1 @ e2) r"
    and c1: "clean env ?h e1 \<Longrightarrow> set (stop_calls (fst \<sigma>)) \<subseteq> set e1
        \<and> (\<forall>p\<in>snd ` set (processes (fst \<sigma>)). handled env ?h e1 p)"
    and c2: "\<And>x. r = Inr x \<Longrightarrow> (\<lambda>t. Join t 5) ` set (threads (fst \<sigma>)) \<subseteq> set e2"
    by blast
  from assms have cl: "clean env ?h (e1 @ e2)" by (simp add: clean_def rz)
  then obtain x where r: "r = Inr x"
    using post by (cases r) (auto dest: run_post_Inl_not_clean)
  from c1 [OF clean_subset [OF cl]] c2 [OF r] show ?thesis
    unfolding i by (auto simp: r handled_def)
qed

lemma stop_system_result:
  "\<exists>evs. stop_system env \<sigma> = (Inr (), ((fst \<sigma>)\<lparr>running := False\<rparr>, snd \<sigma> @ evs))
     \<and> flag_writes evs = [False]"
proof -
  from stop_system_cases [of env \<sigma>] obtain r :: "exn + unit" and e1 e2 where
    res: "stop_system env \<sigma> =
      (Inr (), ((fst \<sigma>)\<lparr>running := False\<rparr>,
         (snd \<sigma> @ [Log INFO ''Stopping P4 DPI System...'', SetRunning False]) @ e1 @ e2 @
         [case r of Inr x \<Rightarrow> Log INFO ''P4 DPI System stopped''
                  | Inl e \<Rightarrow> Log ERROR ''Error stopping system'']))"
    and k: "list_all process_step e1" "list_all join_step e2"
    by blast
  have "flag_writes e1 = []" "flag_writes e2 = []"
    using k by (blast intro: flag_writes_steps process_step_step join_step_step)+
  then have "flag_writes ([Log INFO ''Stopping P4 DPI System...'', SetRunning False] @ e1 @ e2 @
         [case r of Inr x \<Rightarrow> Log INFO ''P4 DPI System stopped''
                  | Inl e \<Rightarrow> Log ERROR ''Error stopping system'']) = [False]"
    by (cases r) (simp_all add: flag_writes_append)
  moreover have "stop_system env \<sigma> = (Inr (), ((fst \<sigma>)\<lparr>running := False\<rparr>,
      snd \<sigma> @ ([Log INFO ''Stopping P4 DPI System...'', SetRunning False] @ e1 @ e2 @
         [case r of Inr x \<Rightarrow> Log INFO ''P4 DPI System stopped''
                  | Inl e \<Rightarrow> Log ERROR ''Error stopping system''])))"
    using res by simp
  ultimately show ?thesis by blast
qed




subsection \<open>The exporter thread\<close>






section \<open>Lemmas on the controller reference and on monitoring\<close>

lemma kept_emit:
  assumes "P e" shows "preserves (kept c P) (emit e)"
  by (rule preserves_emit) (simp add: kept_def assms)

lemma kept_extern:
  assumes "P e" shows "preserves (kept c P) (extern env e)"
  by (rule preserves_extern) (simp add: kept_def assms)

lemma kept_modify:
  assumes "\<And>s. controller (f s) = controller s" shows "preserves (kept c P) (modify_self f)"
  by (rule preserves_modify_self) (simp add: kept_def assms)

lemma kept_stable:
  assumes "\<And>e. \<not> health_event e \<Longrightarrow> P e"
  shows "startup_stable (kept c P)"
proof -
  have "P e" if "startup_event e" for e
    using that by (intro assms) (cases e; simp)
  then show ?thesis by (auto simp: startup_stable_def same_core_def kept_def)
qed

lemma kept_set_running: 
  assumes "\<And>e. \<not> health_event e \<Longrightarrow> P e"
  shows "preserves (kept c P) (set_running b)"
  unfolding set_running_def by (intro pres kept_emit kept_modify assms) simp_all

lemma kept_schedule_initial_export:
  assumes "\<And>e. \<not> health_event e \<Longrightarrow> P e"
  shows "preserves (kept c P) (schedule_initial_export env)"
  unfolding schedule_initial_export_def by (intro pres kept_extern assms) simp_all

lemma kept_run_components:
  assumes "\<And>e. \<not> health_event e \<Longrightarrow> P e"
  shows "preserves (kept c P) (run_components (components env))"
  by (rule preserves_run_components_startup [OF kept_stable]) (simp_all add: assms kept_def)

lemma kept_start_system:
  assumes "\<And>e. \<not> health_event e \<Longrightarrow> P e"
  shows "preserves (kept c P) (start_system env)"
  unfolding start_system_def
  by (intro pres kept_emit kept_set_running kept_schedule_initial_export kept_run_components
      preserves_compile_p4_program [OF kept_stable] assms) simp_all

lemma kept_stop_processes:
  assumes "\<And>e. \<not> health_event e \<Longrightarrow> P e"
  shows "preserves (kept c P) (stop_processes env nps)"
  by (induction nps) (simp add: pres, simp, intro pres kept_extern assms, simp_all)

lemma kept_join_threads:
  assumes "\<And>e. \<not> health_event e \<Longrightarrow> P e"
  shows "preserves (kept c P) (join_threads env ts)"
  by (induction ts) (simp add: pres, simp, intro pres kept_extern assms, simp_all)

lemma kept_stop_system:
  assumes "\<And>e. \<not> health_event e \<Longrightarrow> P e"
  shows "preserves (kept c P) (stop_system env)"
  unfolding stop_system_def
  by (intro pres kept_emit kept_extern kept_set_running kept_stop_processes kept_join_threads
      assms) simp_all

lemma kept_run:
  assumes "\<And>e. \<not> health_event e \<Longrightarrow> P e"
  shows "preserves (kept c P) (run env)"
  unfolding run_def
  by (intro pres kept_emit kept_start_system kept_stop_system assms) simp_all

lemma kept_export_after_delay:
  assumes "\<And>e. \<not> health_event e \<Longrightarrow> P e"
  shows "preserves (kept c P) (export_after_delay env delay db_file)"
proof -
  have "preserves (kept c P) (py_int delay)"
    unfolding py_int_def by (cases "int_of_yaml delay") (simp_all add: pres)
  then show ?thesis
    unfolding export_after_delay_def
    by (intro pres kept_emit kept_extern assms) simp_all
qed

lemma kept_sleep_config:
  assumes "\<And>e. \<not> health_event e \<Longrightarrow> P e"
  shows "preserves (kept c P) (sleep_config v)"
  unfolding sleep_config_def
  by (cases v) (auto intro!: pres kept_emit assms)

lemma health_components_stopped:
  "controller s = None \<Longrightarrow>
   health_components s =
     [(''controller'', ''stopped''), (''logger'', status_of (logger_component s)),
      (''traffic_generator'', status_of (traffic_generator s)),
      (''topology'', status_of (topology s))]"
  by (simp add: health_components_def status_of_def)

lemma check_system_health_result:
  "check_system_health env \<sigma> =
     (case env (snd \<sigma>) Now of
        Exc e \<Rightarrow> (Inl e, (fst \<sigma>, snd \<sigma> @ [Now]))
      | Ret t \<Rightarrow>
          (case env (snd \<sigma> @ [Now]) (WriteHealth t (health_components (fst \<sigma>))) of
             Exc e \<Rightarrow> (Inl e, (fst \<sigma>, snd \<sigma> @ [Now, WriteHealth t (health_components (fst \<sigma>))]))
           | Ret v \<Rightarrow> (Inr (), (fst \<sigma>, snd \<sigma> @ [Now, WriteHealth t (health_components (fst \<sigma>))]))))"
  by (simp add: check_system_health_def prog_defs split: outcome.splits)

lemma kept_check_system_health: "preserves (kept None health_ok) (check_system_health env)"
  unfolding preserves_def
  by (auto simp: check_system_health_result kept_def health_components_stopped
      split: outcome.splits)

lemma log_statistics_none: "controller (fst \<sigma>) = None \<Longrightarrow> log_statistics env \<sigma> = (Inr (), \<sigma>)"
  by (simp add: log_statistics_def prog_defs)

lemma kept_log_statistics: "preserves (kept None health_ok) (log_statistics env)"
  unfolding preserves_def by (auto simp: kept_def log_statistics_none)

lemma kept_monitor_iteration: "preserves (kept None health_ok) (monitor_iteration env)"
  unfolding monitor_iteration_def
  by (intro pres kept_emit kept_check_system_health kept_log_statistics kept_sleep_config)
    (simp_all, (case_tac e; simp)+)

lemma health_ok_tolerant: "\<not> health_event e \<Longrightarrow> health_ok e"
  by (cases e) simp_all

lemma dpi_init_kept:
  assumes "dpi_init env fs config_file [] = (Inr dpi, tr)"
  shows "kept None health_ok (dpi, tr)"
  using assms
  by (auto simp: dpi_init_def load_config_def setup_logging_def new_dpi_system_def kept_def
      split: file_result.splits logger_attr.splits outcome.splits prod.splits sum.splits)

lemma reachable_kept:
  assumes "reachable env fs config_file \<sigma>"
  shows "kept None health_ok \<sigma>"
  using assms
proof (induction rule: reachable.induct)
  case (constructed dpi tr)
  then show ?case by (rule dpi_init_kept)
qed (blast intro: preservesD kept_check_system_health kept_log_statistics kept_monitor_iteration
      kept_stop_system kept_run kept_start_system kept_export_after_delay
      kept_schedule_initial_export health_ok_tolerant
      preserves_compile_p4_program preserves_start_mininet_topology
      preserves_start_p4_controller preserves_start_packet_logger
      preserves_start_traffic_generator preserves_start_web_interface
      preserves_start_monitoring kept_stable)+

lemma kept_frame:
  assumes "preserves (kept (controller (fst \<sigma>)) (\<lambda>e. True)) m"
  shows "controller (self_after m \<sigma>) = controller (fst \<sigma>)"
  using preservesD [OF assms, of \<sigma>] by (simp add: kept_def self_after_def list_all_iff)

lemma frame_check_system_health:
  "controller (self_after (check_system_health env) \<sigma>) = controller (fst \<sigma>)"
  by (simp add: self_after_def check_system_health_result split: outcome.splits)

lemma frame_log_statistics:
  "controller (self_after (log_statistics env) \<sigma>) = controller (fst \<sigma>)"
  by (simp add: self_after_def log_statistics_def prog_defs split: outcome.splits)

lemma frame_monitor_iteration:
  "controller (self_after (monitor_iteration env) \<sigma>) = controller (fst \<sigma>)"
proof (rule kept_frame)
  let ?K = "kept (controller (fst \<sigma>)) (\<lambda>e. True)"
  have a: "preserves ?K (check_system_health env)"
    unfolding preserves_def
    by (auto simp: check_system_health_result kept_def split: outcome.splits)
  have b: "preserves ?K (log_statistics env)"
    unfolding log_statistics_def by (intro pres kept_emit kept_extern) simp_all
  show "preserves ?K (monitor_iteration env)"
    unfolding monitor_iteration_def
    by (intro pres kept_emit a b kept_sleep_config) simp_all
qed

section \<open>The constructor on a missing configuration file\<close>

text \<open>
  C9.  For every path that names no file, \<^verbatim>\<open>load_config\<close>, as the constructor calls
  it (the \<^verbatim>\<open>logger\<close> attribute not yet assigned), raises \<^verbatim>\<open>AttributeError\<close> from
  its \<^verbatim>\<open>FileNotFoundError\<close> handler instead of returning the empty configuration, and so
  does the constructor; nothing but the attempt to open the file has happened.
\<close>

theorem load_config_missing_file_raises:
  assumes "fs config_file = NoSuchFile"
  shows "load_config fs Unset config_file tr = (Inl AttributeError, tr @ [OpenConfig config_file])
    \<and> dpi_init env fs config_file tr = (Inl AttributeError, tr @ [OpenConfig config_file])
    \<and> fst (load_config fs Unset config_file tr) \<noteq> Inr empty_config"
  using assms by (simp add: load_config_def dpi_init_def)

theorem load_config_missing_file_raises_witness:
  "(\<lambda>p. NoSuchFile) ''config/dpi_config.yaml'' = NoSuchFile
   \<and> load_config (\<lambda>p. NoSuchFile) Unset ''config/dpi_config.yaml'' []
       = (Inl AttributeError, [OpenConfig ''config/dpi_config.yaml''])
   \<and> dpi_init (\<lambda>h c. Ret 0) (\<lambda>p. NoSuchFile) ''config/dpi_config.yaml'' []
       = (Inl AttributeError, [OpenConfig ''config/dpi_config.yaml''])"
  using load_config_missing_file_raises
    [of "\<lambda>p. NoSuchFile" "''config/dpi_config.yaml''" "[]" "\<lambda>h c. Ret 0"]
  by simp

section \<open>Startup: flag, compiler, fail-fast\<close>

text \<open>
  C8.  When \<^verbatim>\<open>start_system\<close> returns \<open>False\<close> (the compilation or a component
  action failed), the running flag is true afterwards: the only write to the flag is the
  \<open>True\<close> at entry, the third thing \<^verbatim>\<open>start_system\<close> does and before compilation;
  no failure path writes it again.
\<close>

theorem start_system_failure_keeps_running:
  assumes "outcome_of (start_system env) \<sigma> = Inr False"
  shows "running (self_after (start_system env) \<sigma>)
    \<and> flag_writes (issued (start_system env) \<sigma>) = [True]
    \<and> take 3 (issued (start_system env) \<sigma>) =
        [Print ''DEBUG: start_system called'', Log INFO ''Starting P4 DPI System...'',
         SetRunning True]"
proof -
  obtain s tr where \<sigma>: "\<sigma> = (s, tr)" by (cases \<sigma>)
  from start_system_summary [of env s tr] start_system_prefix [of env s tr]
  show ?thesis unfolding \<sigma> by auto
qed

theorem start_system_failure_keeps_running_witness:
  "outcome_of (start_system (\<lambda>h c. Exc FileNotFoundError)) (new_dpi_system empty_config 0, []) = Inr False
   \<and> running (self_after (start_system (\<lambda>h c. Exc FileNotFoundError)) (new_dpi_system empty_config 0, []))
   \<and> flag_writes (issued (start_system (\<lambda>h c. Exc FileNotFoundError)) (new_dpi_system empty_config 0, [])) = [True]"
proof -
  have h: "outcome_of (start_system (\<lambda>h c. Exc FileNotFoundError)) (new_dpi_system empty_config 0, []) = Inr False"
    by (simp add: outcome_of_def start_system_def compile_p4_program_def prog_defs)
  from start_system_failure_keeps_running [OF h] h show ?thesis by simp
qed

text \<open>
  C5.  When the compiler binary is absent (running \<^verbatim>\<open>p4c --version\<close> raises
  \<^verbatim>\<open>FileNotFoundError\<close>), \<^verbatim>\<open>start_system\<close> returns \<open>False\<close> having issued
  exactly the nine events below: no component action is invoked, no process or thread is
  started.  The object is unchanged but for the running flag, so both registries are as
  they were, and empty for a newly constructed object.
\<close>

theorem start_system_compiler_absent:
  assumes "\<forall>h. env h (SubprocessRun [''p4c'', ''--version'']) = Exc FileNotFoundError"
  shows "outcome_of (start_system env) (s, tr) = Inr False
    \<and> issued (start_system env) (s, tr) =
        [Print ''DEBUG: start_system called'', Log INFO ''Starting P4 DPI System...'',
         SetRunning True, Print ''DEBUG: compiling P4...'', Log INFO ''Compiling P4 program...'',
         SubprocessRun [''p4c'', ''--version''], Log ERROR ''Error compiling P4 program'',
         Print ''DEBUG: compile failed'', Log ERROR ''Failed to compile P4 program'']
    \<and> self_after (start_system env) (s, tr) = s\<lparr>running := True\<rparr>
    \<and> processes (self_after (start_system env) (s, tr)) = processes s
    \<and> threads (self_after (start_system env) (s, tr)) = threads s
    \<and> processes (self_after (start_system env) (new_dpi_system c t, tr)) = []
    \<and> threads (self_after (start_system env) (new_dpi_system c t, tr)) = []"
proof -
  have "\<And>s. start_system env (s, tr) = (Inr False, (s\<lparr>running := True\<rparr>, tr @
        [Print ''DEBUG: start_system called'', Log INFO ''Starting P4 DPI System...'',
         SetRunning True, Print ''DEBUG: compiling P4...'', Log INFO ''Compiling P4 program...'',
         SubprocessRun [''p4c'', ''--version''], Log ERROR ''Error compiling P4 program'',
         Print ''DEBUG: compile failed'', Log ERROR ''Failed to compile P4 program'']))"
    using assms by (simp add: start_system_def compile_p4_program_def prog_defs)
  then show ?thesis
    by (simp add: outcome_of_def issued_def self_after_def new_dpi_system_def)
qed

theorem start_system_compiler_absent_witness:
  "(\<lambda>h c. if c = SubprocessRun [''p4c'', ''--version''] then Exc FileNotFoundError else Ret 0) []
      (SubprocessRun [''p4c'', ''--version'']) = Exc FileNotFoundError
   \<and> outcome_of (start_system
        (\<lambda>h c. if c = SubprocessRun [''p4c'', ''--version''] then Exc FileNotFoundError else Ret 0))
        (new_dpi_system empty_config 0, []) = Inr False
   \<and> processes (self_after (start_system
        (\<lambda>h c. if c = SubprocessRun [''p4c'', ''--version''] then Exc FileNotFoundError else Ret 0))
        (new_dpi_system empty_config 0, [])) = []
   \<and> threads (self_after (start_system
        (\<lambda>h c. if c = SubprocessRun [''p4c'', ''--version''] then Exc FileNotFoundError else Ret 0))
        (new_dpi_system empty_config 0, [])) = []"
  using start_system_compiler_absent
    [of "\<lambda>h c. if c = SubprocessRun [''p4c'', ''--version''] then Exc FileNotFoundError else Ret 0"
        "new_dpi_system empty_config 0" "[]" empty_config 0]
  by (simp add: new_dpi_system_def)

text \<open>
  C3.  The loop calls the action numbered \<open>k\<close> (counting from 0) in the state it has
  reached when the loop over the first \<open>k\<close> components has run through, after
  announcing the action on the console and in the log.  If compilation succeeded, the
  loop gets to action \<open>k\<close>, and action \<open>k\<close>, called there, returns \<open>False\<close> leaving
  the state \<open>\<tau>\<close>, then:
  \<^item> \<^verbatim>\<open>start_system\<close> returns \<open>False\<close>, and what it leaves is \<open>\<tau>\<close> followed by exactly
    two events, the console line and the error log of the failure; so after action \<open>k\<close>
    has returned nothing else is called, built, started or recorded;
  \<^item> the loop gets to no later action: for no \<open>j > k\<close> does the loop over the first \<open>j\<close>
    components run through;
  \<^item> for every \<open>i < k\<close> the loop got to action \<open>i\<close>, and action \<open>i\<close>, called in the
    state the loop had reached then, returned \<open>True\<close>.
\<close>

theorem start_system_fail_fast:
  assumes "k < length (components env)"
    and "compile_p4_program env ((fst \<sigma>0)\<lparr>running := True\<rparr>,
             snd \<sigma>0 @ [Print ''DEBUG: start_system called'',
                       Log INFO ''Starting P4 DPI System...'',
                       SetRunning True, Print ''DEBUG: compiling P4...'']) = (Inr True, \<sigma>1)"
    and "run_components (take k (components env))
           (fst \<sigma>1, snd \<sigma>1 @ [Print ''DEBUG: compile OK'']) = (Inr True, \<sigma>')"
    and "snd (components env ! k)
           (fst \<sigma>', snd \<sigma>' @
              [Print (''DEBUG: Starting '' @ fst (components env ! k) @ ''...''),
               Log INFO (''Starting '' @ fst (components env ! k) @ ''...'')]) = (Inr False, \<tau>)"
  shows "start_system env \<sigma>0 =
       (Inr False, (fst \<tau>, snd \<tau> @
          [Print (''DEBUG: '' @ fst (components env ! k) @ '' failed''),
           Log ERROR (''Failed to start '' @ fst (components env ! k))]))
     \<and> (\<forall>j. k < j \<and> j \<le> length (components env) \<longrightarrow>
          (\<forall>\<sigma>j. run_components (take j (components env))
                  (fst \<sigma>1, snd \<sigma>1 @ [Print ''DEBUG: compile OK'']) \<noteq> (Inr True, \<sigma>j)))
     \<and> (\<forall>i<k. \<exists>\<sigma>i \<tau>i.
          run_components (take i (components env))
            (fst \<sigma>1, snd \<sigma>1 @ [Print ''DEBUG: compile OK'']) = (Inr True, \<sigma>i)
          \<and> snd (components env ! i)
              (fst \<sigma>i, snd \<sigma>i @
                 [Print (''DEBUG: Starting '' @ fst (components env ! i) @ ''...''),
                  Log INFO (''Starting '' @ fst (components env ! i) @ ''...'')])
            = (Inr True, \<tau>i))"
proof (intro conjI allI impI)
  let ?cs = "components env"
  let ?\<sigma>c = "(fst \<sigma>1, snd \<sigma>1 @ [Print ''DEBUG: compile OK''])"
  let ?fin = "(fst \<tau>, snd \<tau> @ [Print (''DEBUG: '' @ fst (?cs ! k) @ '' failed''),
           Log ERROR (''Failed to start '' @ fst (?cs ! k))])"
  have loop: "run_components ?cs ?\<sigma>c = (Inr False, ?fin)"
    using assms(1,3,4) by (rule run_components_reach_fail)
  from start_system_unfold [of env "fst \<sigma>0" "snd \<sigma>0" True \<sigma>1 False ?fin] assms(2) loop
  show "start_system env \<sigma>0 = (Inr False, ?fin)" by simp
  show "run_components (take j ?cs) ?\<sigma>c \<noteq> (Inr True, \<sigma>j)" if "k < j \<and> j \<le> length ?cs" for j \<sigma>j
  proof -
    from that have "k < length (take j ?cs)" by simp
    moreover from that assms(3)
    have "run_components (take k (take j ?cs)) ?\<sigma>c = (Inr True, \<sigma>')" by (simp add: min_def)
    moreover from that assms(4)
    have "snd (take j ?cs ! k) (fst \<sigma>', snd \<sigma>' @
          [Print (''DEBUG: Starting '' @ fst (take j ?cs ! k) @ ''...''),
           Log INFO (''Starting '' @ fst (take j ?cs ! k) @ ''...'')]) = (Inr False, \<tau>)"
      by simp
    ultimately have "fst (run_components (take j ?cs) ?\<sigma>c) = Inr False"
      by (simp add: run_components_reach_fail)
    then show ?thesis by auto
  qed
  show "\<exists>\<sigma>i \<tau>i.
          run_components (take i ?cs) ?\<sigma>c = (Inr True, \<sigma>i)
          \<and> snd (?cs ! i)
              (fst \<sigma>i, snd \<sigma>i @
                 [Print (''DEBUG: Starting '' @ fst (?cs ! i) @ ''...''),
                  Log INFO (''Starting '' @ fst (?cs ! i) @ ''...'')])
            = (Inr True, \<tau>i)" if "i < k" for i
    using assms(1) that assms(3) by (intro run_components_reach_earlier [of k]) simp_all
qed

theorem start_system_fail_fast_witness:
  "(3::nat) < length (components (\<lambda>h c. if c = NewTrafficGenerator then Exc OtherException else Ret 0))
   \<and> compile_p4_program (\<lambda>h c. if c = NewTrafficGenerator then Exc OtherException else Ret 0)
        (new_dpi_system empty_config 0 \<lparr>running := True\<rparr>,
         [Print ''DEBUG: start_system called'', Log INFO ''Starting P4 DPI System...'',
          SetRunning True, Print ''DEBUG: compiling P4...'']) =
      (Inr True, new_dpi_system empty_config 0 \<lparr>running := True\<rparr>,
         [Print ''DEBUG: start_system called'', Log INFO ''Starting P4 DPI System...'',
          SetRunning True, Print ''DEBUG: compiling P4...'',
          Log INFO ''Compiling P4 program...'', SubprocessRun [''p4c'', ''--version''],
          SubprocessRun compile_cmd, PathExists ''dpi_l2_l4.json'',
          Log INFO ''P4 program compiled successfully''])
   \<and> run_components (take 3 (components (\<lambda>h c. if c = NewTrafficGenerator then Exc OtherException else Ret 0)))
        (new_dpi_system empty_config 0 \<lparr>running := True\<rparr>,
         [Print ''DEBUG: start_system called'', Log INFO ''Starting P4 DPI System...'',
          SetRunning True, Print ''DEBUG: compiling P4...'',
          Log INFO ''Compiling P4 program...'', SubprocessRun [''p4c'', ''--version''],
          SubprocessRun compile_cmd, PathExists ''dpi_l2_l4.json'',
          Log INFO ''P4 program compiled successfully'', Print ''DEBUG: compile OK'']) =
      (Inr True, new_dpi_system empty_config 0
          \<lparr>running := True, topology := Some (), logger_component := Some (),
           threads := [CreateTopology]\<rparr>,
         [Print ''DEBUG: start_system called'', Log INFO ''Starting P4 DPI System...'',
          SetRunning True, Print ''DEBUG: compiling P4...'',
          Log INFO ''Compiling P4 program...'', SubprocessRun [''p4c'', ''--version''],
          SubprocessRun compile_cmd, PathExists ''dpi_l2_l4.json'',
          Log INFO ''P4 program compiled successfully'', Print ''DEBUG: compile OK'',
          Print ''DEBUG: Starting Mininet Topology...'',
          Log INFO ''Starting Mininet Topology...'', Log INFO ''Starting Mininet topology...'',
          NewDPITopology, ThreadStart CreateTopology, Sleep 10, TopologyStartTraffic,
          Log INFO ''Mininet topology started'', Print ''DEBUG: Mininet Topology OK'', Sleep 2,
          Print ''DEBUG: Starting P4 Controller...'', Log INFO ''Starting P4 Controller...'',
          Log INFO ''Starting P4 controllers (one per switch)...'',
          Log WARNING ''No switches defined in config'', Print ''DEBUG: P4 Controller OK'',
          Sleep 2, Print ''DEBUG: Starting Packet Logger...'',
          Log INFO ''Starting Packet Logger...'', Log INFO ''Starting packet logger...'',
          NewPacketLogger, Log INFO ''Packet logger started'',
          Print ''DEBUG: Packet Logger OK'', Sleep 2])
   \<and> start_traffic_generator (\<lambda>h c. if c = NewTrafficGenerator then Exc OtherException else Ret 0)
        (new_dpi_system empty_config 0
          \<lparr>running := True, topology := Some (), logger_component := Some (),
           threads := [CreateTopology]\<rparr>,
         [Print ''DEBUG: start_system called'', Log INFO ''Starting P4 DPI System...'',
          SetRunning True, Print ''DEBUG: compiling P4...'',
          Log INFO ''Compiling P4 program...'', SubprocessRun [''p4c'', ''--version''],
          SubprocessRun compile_cmd, PathExists ''dpi_l2_l4.json'',
          Log INFO ''P4 program compiled successfully'', Print ''DEBUG: compile OK'',
          Print ''DEBUG: Starting Mininet Topology...'',
          Log INFO ''Starting Mininet Topology...'', Log INFO ''Starting Mininet topology...'',
          NewDPITopology, ThreadStart CreateTopology, Sleep 10, TopologyStartTraffic,
          Log INFO ''Mininet topology started'', Print ''DEBUG: Mininet Topology OK'', Sleep 2,
          Print ''DEBUG: Starting P4 Controller...'', Log INFO ''Starting P4 Controller...'',
          Log INFO ''Starting P4 controllers (one per switch)...'',
          Log WARNING ''No switches defined in config'', Print ''DEBUG: P4 Controller OK'',
          Sleep 2, Print ''DEBUG: Starting Packet Logger...'',
          Log INFO ''Starting Packet Logger...'', Log INFO ''Starting packet logger...'',
          NewPacketLogger, Log INFO ''Packet logger started'',
          Print ''DEBUG: Packet Logger OK'', Sleep 2,
          Print ''DEBUG: Starting Traffic Generator...'',
          Log INFO ''Starting Traffic Generator...'']) =
      (Inr False, new_dpi_system empty_config 0
          \<lparr>running := True, topology := Some (), logger_component := Some (),
           threads := [CreateTopology]\<rparr>,
         [Print ''DEBUG: start_system called'', Log INFO ''Starting P4 DPI System...'',
          SetRunning True, Print ''DEBUG: compiling P4...'',
          Log INFO ''Compiling P4 program...'', SubprocessRun [''p4c'', ''--version''],
          SubprocessRun compile_cmd, PathExists ''dpi_l2_l4.json'',
          Log INFO ''P4 program compiled successfully'', Print ''DEBUG: compile OK'',
          Print ''DEBUG: Starting Mininet Topology...'',
          Log INFO ''Starting Mininet Topology...'', Log INFO ''Starting Mininet topology...'',
          NewDPITopology, ThreadStart CreateTopology, Sleep 10, TopologyStartTraffic,
          Log INFO ''Mininet topology started'', Print ''DEBUG: Mininet Topology OK'', Sleep 2,
          Print ''DEBUG: Starting P4 Controller...'', Log INFO ''Starting P4 Controller...'',
          Log INFO ''Starting P4 controllers (one per switch)...'',
          Log WARNING ''No switches defined in config'', Print ''DEBUG: P4 Controller OK'',
          Sleep 2, Print ''DEBUG: Starting Packet Logger...'',
          Log INFO ''Starting Packet Logger...'', Log INFO ''Starting packet logger...'',
          NewPacketLogger, Log INFO ''Packet logger started'',
          Print ''DEBUG: Packet Logger OK'', Sleep 2,
          Print ''DEBUG: Starting Traffic Generator...'',
          Log INFO ''Starting Traffic Generator...'',
          Log INFO ''Starting traffic generator...'', NewTrafficGenerator,
          Log ERROR ''Error starting traffic generator''])
   \<and> start_system (\<lambda>h c. if c = NewTrafficGenerator then Exc OtherException else Ret 0) (new_dpi_system empty_config 0, []) =
      (Inr False, new_dpi_system empty_config 0
          \<lparr>running := True, topology := Some (), logger_component := Some (),
           threads := [CreateTopology]\<rparr>,
         [Print ''DEBUG: start_system called'', Log INFO ''Starting P4 DPI System...'',
          SetRunning True, Print ''DEBUG: compiling P4...'',
          Log INFO ''Compiling P4 program...'', SubprocessRun [''p4c'', ''--version''],
          SubprocessRun compile_cmd, PathExists ''dpi_l2_l4.json'',
          Log INFO ''P4 program compiled successfully'', Print ''DEBUG: compile OK'',
          Print ''DEBUG: Starting Mininet Topology...'',
          Log INFO ''Starting Mininet Topology...'', Log INFO ''Starting Mininet topology...'',
          NewDPITopology, ThreadStart CreateTopology, Sleep 10, TopologyStartTraffic,
          Log INFO ''Mininet topology started'', Print ''DEBUG: Mininet Topology OK'', Sleep 2,
          Print ''DEBUG: Starting P4 Controller...'', Log INFO ''Starting P4 Controller...'',
          Log INFO ''Starting P4 controllers (one per switch)...'',
          Log WARNING ''No switches defined in config'', Print ''DEBUG: P4 Controller OK'',
          Sleep 2, Print ''DEBUG: Starting Packet Logger...'',
          Log INFO ''Starting Packet Logger...'', Log INFO ''Starting packet logger...'',
          NewPacketLogger, Log INFO ''Packet logger started'',
          Print ''DEBUG: Packet Logger OK'', Sleep 2,
          Print ''DEBUG: Starting Traffic Generator...'',
          Log INFO ''Starting Traffic Generator...'',
          Log INFO ''Starting traffic generator...'', NewTrafficGenerator,
          Log ERROR ''Error starting traffic generator'',
          Print ''DEBUG: Traffic Generator failed'',
          Log ERROR ''Failed to start Traffic Generator''])"
proof -
  let ?env = "(\<lambda>h c. if c = NewTrafficGenerator then Exc OtherException else Ret 0) :: env"
  let ?s1 = "new_dpi_system empty_config 0 \<lparr>running := True\<rparr>"
  let ?s2 = "new_dpi_system empty_config 0
          \<lparr>running := True, topology := Some (), logger_component := Some (),
           threads := [CreateTopology]\<rparr>"
  let ?A = "[Print ''DEBUG: start_system called'', Log INFO ''Starting P4 DPI System...'',
          SetRunning True, Print ''DEBUG: compiling P4...'']"
  let ?B = "[Print ''DEBUG: start_system called'', Log INFO ''Starting P4 DPI System...'',
          SetRunning True, Print ''DEBUG: compiling P4...'',
          Log INFO ''Compiling P4 program...'', SubprocessRun [''p4c'', ''--version''],
          SubprocessRun compile_cmd, PathExists ''dpi_l2_l4.json'',
          Log INFO ''P4 program compiled successfully'']"
  let ?C = "[Print ''DEBUG: start_system called'', Log INFO ''Starting P4 DPI System...'',
          SetRunning True, Print ''DEBUG: compiling P4...'',
          Log INFO ''Compiling P4 program...'', SubprocessRun [''p4c'', ''--version''],
          SubprocessRun compile_cmd, PathExists ''dpi_l2_l4.json'',
          Log INFO ''P4 program compiled successfully'', Print ''DEBUG: compile OK'',
          Print ''DEBUG: Starting Mininet Topology...'',
          Log INFO ''Starting Mininet Topology...'', Log INFO ''Starting Mininet topology...'',
          NewDPITopology, ThreadStart CreateTopology, Sleep 10, TopologyStartTraffic,
          Log INFO ''Mininet topology started'', Print ''DEBUG: Mininet Topology OK'', Sleep 2,
          Print ''DEBUG: Starting P4 Controller...'', Log INFO ''Starting P4 Controller...'',
          Log INFO ''Starting P4 controllers (one per switch)...'',
          Log WARNING ''No switches defined in config'', Print ''DEBUG: P4 Controller OK'',
          Sleep 2, Print ''DEBUG: Starting Packet Logger...'',
          Log INFO ''Starting Packet Logger...'', Log INFO ''Starting packet logger...'',
          NewPacketLogger, Log INFO ''Packet logger started'',
          Print ''DEBUG: Packet Logger OK'', Sleep 2]"
  let ?E = "[Print ''DEBUG: start_system called'', Log INFO ''Starting P4 DPI System...'',
          SetRunning True, Print ''DEBUG: compiling P4...'',
          Log INFO ''Compiling P4 program...'', SubprocessRun [''p4c'', ''--version''],
          SubprocessRun compile_cmd, PathExists ''dpi_l2_l4.json'',
          Log INFO ''P4 program compiled successfully'', Print ''DEBUG: compile OK'',
          Print ''DEBUG: Starting Mininet Topology...'',
          Log INFO ''Starting Mininet Topology...'', Log INFO ''Starting Mininet topology...'',
          NewDPITopology, ThreadStart CreateTopology, Sleep 10, TopologyStartTraffic,
          Log INFO ''Mininet topology started'', Print ''DEBUG: Mininet Topology OK'', Sleep 2,
          Print ''DEBUG: Starting P4 Controller...'', Log INFO ''Starting P4 Controller...'',
          Log INFO ''Starting P4 controllers (one per switch)...'',
          Log WARNING ''No switches defined in config'', Print ''DEBUG: P4 Controller OK'',
          Sleep 2, Print ''DEBUG: Starting Packet Logger...'',
          Log INFO ''Starting Packet Logger...'', Log INFO ''Starting packet logger...'',
          NewPacketLogger, Log INFO ''Packet logger started'',
          Print ''DEBUG: Packet Logger OK'', Sleep 2,
          Print ''DEBUG: Starting Traffic Generator...'',
          Log INFO ''Starting Traffic Generator...'',
          Log INFO ''Starting traffic generator...'', NewTrafficGenerator,
          Log ERROR ''Error starting traffic generator'']"
  have k: "(3::nat) < length (components ?env)" by (simp add: components_def)
  have comp: "compile_p4_program ?env ((fst (new_dpi_system empty_config 0, []))\<lparr>running := True\<rparr>,
      snd (new_dpi_system empty_config 0, []) @ ?A) = (Inr True, (?s1, ?B))"
    by (simp add: compile_p4_program_def prog_defs)
  have reach: "run_components (take 3 (components ?env))
      (fst (?s1, ?B), snd (?s1, ?B) @ [Print ''DEBUG: compile OK'']) = (Inr True, (?s2, ?C))"
    by (simp add: components_def start_mininet_topology_def start_p4_controller_def
        start_packet_logger_def prog_defs new_dpi_system_def empty_config_def)
  have fail: "snd (components ?env ! 3)
      (fst (?s2, ?C), snd (?s2, ?C) @
         [Print (''DEBUG: Starting '' @ fst (components ?env ! 3) @ ''...''),
          Log INFO (''Starting '' @ fst (components ?env ! 3) @ ''...'')]) = (Inr False, (?s2, ?E))"
    by (simp add: components_def start_traffic_generator_def prog_defs)
  from start_system_fail_fast [OF k comp reach fail] k comp reach fail show ?thesis
    by (simp add: components_def)
qed

section \<open>Shutdown: exceptions and processes\<close>

text \<open>
  C2.  \<^verbatim>\<open>stop_system\<close> never raises.  Its steps are under one \<^verbatim>\<open>try\<close>; only
  \<^verbatim>\<open>terminate\<close> and \<^verbatim>\<open>wait\<close> have a handler of their own.
  \<^item> If no collaborator's stop call, no \<^verbatim>\<open>kill\<close> and no \<^verbatim>\<open>join\<close> raises, every
    step is attempted: the stop call of each collaborator present, \<^verbatim>\<open>terminate\<close> on
    each process of the registry, \<^verbatim>\<open>join\<close> on each thread; the last event is the log
    entry ``P4 DPI System stopped''.
  \<^item> If such a call raises, the call is followed by the log entry ``Error stopping
    system'' and by nothing else: every remaining step is skipped.  No such call had
    raised before it.
  \<^item> A \<^verbatim>\<open>terminate\<close> or \<^verbatim>\<open>wait\<close> that raises is answered by \<^verbatim>\<open>kill\<close> on that
    process; by itself it is not logged.
\<close>

theorem stop_system_exception_policy:
  "outcome_of (stop_system env) \<sigma> = Inr () \<and>
   (filter outer_step (raised env (snd \<sigma>) (issued (stop_system env) \<sigma>)) = [] \<longrightarrow>
      last (issued (stop_system env) \<sigma>) = Log INFO ''P4 DPI System stopped'' \<and>
      set (stop_calls (fst \<sigma>)) \<subseteq> set (issued (stop_system env) \<sigma>) \<and>
      (\<forall>p\<in>snd ` set (processes (fst \<sigma>)). Terminate p \<in> set (issued (stop_system env) \<sigma>)) \<and>
      (\<forall>t\<in>set (threads (fst \<sigma>)). Join t 5 \<in> set (issued (stop_system env) \<sigma>))) \<and>
   (\<forall>c\<in>set (filter outer_step (raised env (snd \<sigma>) (issued (stop_system env) \<sigma>))).
      \<exists>pre. issued (stop_system env) \<sigma> = pre @ [c, Log ERROR ''Error stopping system'']
        \<and> filter outer_step (raised env (snd \<sigma>) pre) = []) \<and>
   (\<forall>p. Terminate p \<in> set (raised env (snd \<sigma>) (issued (stop_system env) \<sigma>))
        \<or> Wait p 5 \<in> set (raised env (snd \<sigma>) (issued (stop_system env) \<sigma>))
      \<longrightarrow> Kill p \<in> set (issued (stop_system env) \<sigma>)) \<and>
   (Log ERROR ''Error stopping system'' \<in> set (issued (stop_system env) \<sigma>) \<longrightarrow>
      filter outer_step (raised env (snd \<sigma>) (issued (stop_system env) \<sigma>)) \<noteq> [])"
proof -
  let ?h = "snd \<sigma> @ [Log INFO ''Stopping P4 DPI System...'', SetRunning False]"
  from stop_system_cases [of env \<sigma>] obtain r :: "exn + unit" and e1 e2 where
    res: "stop_system env \<sigma> =
      (Inr (), ((fst \<sigma>)\<lparr>running := False\<rparr>,
         ?h @ e1 @ e2 @ [case r of Inr x \<Rightarrow> Log INFO ''P4 DPI System stopped''
                                | Inl e \<Rightarrow> Log ERROR ''Error stopping system'']))"
    and i: "issued (stop_system env) \<sigma> =
       [Log INFO ''Stopping P4 DPI System...'', SetRunning False] @ e1 @ e2 @
       [case r of Inr x \<Rightarrow> Log INFO ''P4 DPI System stopped''
                | Inl e \<Rightarrow> Log ERROR ''Error stopping system'']"
    and rz: "raised env (snd \<sigma>) (issued (stop_system env) \<sigma>) = raised env ?h (e1 @ e2)"
    and k: "list_all process_step e1" "list_all join_step e2"
    and post: "run_post env ?h (e1 @ e2) r"
    and c1: "clean env ?h e1 \<Longrightarrow> set (stop_calls (fst \<sigma>)) \<subseteq> set e1
        \<and> (\<forall>p\<in>snd ` set (processes (fst \<sigma>)). handled env ?h e1 p)"
    and c2: "\<And>x. r = Inr x \<Longrightarrow> (\<lambda>t. Join t 5) ` set (threads (fst \<sigma>)) \<subseteq> set e2"
    by blast
  have A: "outcome_of (stop_system env) \<sigma> = Inr ()"
    by (simp add: outcome_of_def res)
  have B: "last (issued (stop_system env) \<sigma>) = Log INFO ''P4 DPI System stopped'' \<and>
      set (stop_calls (fst \<sigma>)) \<subseteq> set (issued (stop_system env) \<sigma>) \<and>
      (\<forall>p\<in>snd ` set (processes (fst \<sigma>)). Terminate p \<in> set (issued (stop_system env) \<sigma>)) \<and>
      (\<forall>t\<in>set (threads (fst \<sigma>)). Join t 5 \<in> set (issued (stop_system env) \<sigma>))"
    if "filter outer_step (raised env (snd \<sigma>) (issued (stop_system env) \<sigma>)) = []"
  proof -
    from that have cl: "clean env ?h (e1 @ e2)" by (simp add: clean_def rz)
    then obtain x where r: "r = Inr x"
      using post by (cases r) (auto dest: run_post_Inl_not_clean)
    from c1 [OF clean_subset [OF cl]] c2 [OF r] show ?thesis
      unfolding i by (auto simp: r handled_def)
  qed
  have C: "\<exists>pre. issued (stop_system env) \<sigma> = pre @ [c, Log ERROR ''Error stopping system'']
        \<and> filter outer_step (raised env (snd \<sigma>) pre) = []"
    if "c \<in> set (filter outer_step (raised env (snd \<sigma>) (issued (stop_system env) \<sigma>)))" for c
  proof -
    from that have ncl: "\<not> clean env ?h (e1 @ e2)" by (auto simp: clean_def rz filter_empty_conv)
    then obtain e where r: "r = Inl e"
      using post by (cases r) (auto simp: run_post_def)
    from run_post_Inl_raised [OF post [unfolded r]]
    obtain pre c' where p: "e1 @ e2 = pre @ [c']"
      "filter outer_step (raised env ?h (e1 @ e2)) = [c']" "clean env ?h pre"
      by blast
    from that p(2) have "c = c'" by (simp add: rz)
    have "issued (stop_system env) \<sigma> =
        ([Log INFO ''Stopping P4 DPI System...'', SetRunning False] @ pre)
          @ [c, Log ERROR ''Error stopping system'']"
      using i p(1) r \<open>c = c'\<close> by simp
    moreover have "filter outer_step (raised env (snd \<sigma>)
        ([Log INFO ''Stopping P4 DPI System...'', SetRunning False] @ pre)) = []"
      using p(3) by (simp add: raised_append clean_def split: outcome.splits)
    ultimately show ?thesis by blast
  qed
  have D: "Kill p \<in> set (issued (stop_system env) \<sigma>)"
    if "Terminate p \<in> set (raised env (snd \<sigma>) (issued (stop_system env) \<sigma>))
        \<or> Wait p 5 \<in> set (raised env (snd \<sigma>) (issued (stop_system env) \<sigma>))" for p
  proof -
    from that post have "Kill p \<in> set (e1 @ e2)"
      unfolding rz run_post_def by blast
    then show ?thesis unfolding i by simp
  qed
  have E: "filter outer_step (raised env (snd \<sigma>) (issued (stop_system env) \<sigma>)) \<noteq> []"
    if "Log ERROR ''Error stopping system'' \<in> set (issued (stop_system env) \<sigma>)"
  proof -
    have "Log ERROR ''Error stopping system'' \<notin> set e1"
      "Log ERROR ''Error stopping system'' \<notin> set e2"
      using k by (blast dest: steps_no_log process_step_step join_step_step)+
    with that obtain e where r: "r = Inl e"
      unfolding i by (cases r) auto
    from run_post_Inl_not_clean [OF post [unfolded r]] show ?thesis
      by (simp add: clean_def rz)
  qed
  from A B C D E show ?thesis by blast
qed

theorem stop_system_exception_policy_witness:
  "filter outer_step
     (raised (\<lambda>h c. if c = Terminate 7 then Exc OtherException else Ret 0) []
        (issued (stop_system (\<lambda>h c. if c = Terminate 7 then Exc OtherException else Ret 0))
           (new_dpi_system empty_config 0
              \<lparr>traffic_generator := Some (), topology := Some (),
               threads := [MonitorSystem], processes := [(''flask_api'', 7)]\<rparr>, []))) = []
   \<and> issued (stop_system (\<lambda>h c. if c = Terminate 7 then Exc OtherException else Ret 0))
        (new_dpi_system empty_config 0
           \<lparr>traffic_generator := Some (), topology := Some (),
            threads := [MonitorSystem], processes := [(''flask_api'', 7)]\<rparr>, []) =
      [Log INFO ''Stopping P4 DPI System...'', SetRunning False, StopTrafficGeneration,
       TopologyStop, Terminate 7, Kill 7, Join MonitorSystem 5,
       Log INFO ''P4 DPI System stopped'']
   \<and> TopologyStop \<in> set (filter outer_step
     (raised (\<lambda>h c. if c = TopologyStop then Exc OtherException else Ret 0) []
        (issued (stop_system (\<lambda>h c. if c = TopologyStop then Exc OtherException else Ret 0))
           (new_dpi_system empty_config 0
              \<lparr>traffic_generator := Some (), topology := Some (),
               threads := [MonitorSystem], processes := [(''flask_api'', 7)]\<rparr>, []))))
   \<and> issued (stop_system (\<lambda>h c. if c = TopologyStop then Exc OtherException else Ret 0))
        (new_dpi_system empty_config 0
           \<lparr>traffic_generator := Some (), topology := Some (),
            threads := [MonitorSystem], processes := [(''flask_api'', 7)]\<rparr>, []) =
      [Log INFO ''Stopping P4 DPI System...'', SetRunning False, StopTrafficGeneration]
      @ [TopologyStop, Log ERROR ''Error stopping system'']"
  using stop_system_exception_policy
     [of "\<lambda>h c. if c = Terminate 7 then Exc OtherException else Ret 0"
         "(new_dpi_system empty_config 0
              \<lparr>traffic_generator := Some (), topology := Some (),
               threads := [MonitorSystem], processes := [(''flask_api'', 7)]\<rparr>, [])"]
    stop_system_exception_policy
     [of "\<lambda>h c. if c = TopologyStop then Exc OtherException else Ret 0"
         "(new_dpi_system empty_config 0
              \<lparr>traffic_generator := Some (), topology := Some (),
               threads := [MonitorSystem], processes := [(''flask_api'', 7)]\<rparr>, [])"]
  by (simp add: stop_eval)

text \<open>
  The traffic generator's stop call raises: the exception is logged, and the topology is
  not stopped, the process not terminated, the thread not joined.
\<close>

theorem stop_system_skips_after_exception:
  "(\<lambda>h c. if c = StopTrafficGeneration then Exc OtherException else Ret 0)
      [Log INFO ''Stopping P4 DPI System...'', SetRunning False] StopTrafficGeneration
     = Exc OtherException
   \<and> stop_system (\<lambda>h c. if c = StopTrafficGeneration then Exc OtherException else Ret 0)
        (new_dpi_system empty_config 0
           \<lparr>traffic_generator := Some (), topology := Some (),
            threads := [MonitorSystem], processes := [(''flask_api'', 7)]\<rparr>, []) =
      (Inr (),
       new_dpi_system empty_config 0
           \<lparr>traffic_generator := Some (), topology := Some (),
            threads := [MonitorSystem], processes := [(''flask_api'', 7)]\<rparr>,
       [Log INFO ''Stopping P4 DPI System...'', SetRunning False, StopTrafficGeneration,
        Log ERROR ''Error stopping system''])"
  by (simp add: stop_eval)




section \<open>The running flag and repeated shutdown\<close>

text \<open>
  C1.  \<^verbatim>\<open>stop_system\<close> writes \<open>False\<close> to the flag and assigns no other attribute: the
  registries and the collaborator references are what they were.  So two calls in a row
  leave the same object as one call, and neither raises.  The second call is no no-op.
  \<^verbatim>\<open>stop_system\<close> never reads the flag: from the same history it does the same,
  whatever the flag is.  The second call logs and writes the flag again, and unless one
  of its calls raises (\<^verbatim>\<open>terminate\<close> and \<^verbatim>\<open>wait\<close> apart) it calls stop again on
  each collaborator present, \<^verbatim>\<open>terminate\<close> again on each process of the registry and
  \<^verbatim>\<open>join\<close> again on each thread.
\<close>

theorem stop_system_twice:
  "self_after (stop_system env) \<sigma> = (fst \<sigma>)\<lparr>running := False\<rparr>
   \<and> self_after (andthen (stop_system env) (stop_system env)) \<sigma> = (fst \<sigma>)\<lparr>running := False\<rparr>
   \<and> outcome_of (andthen (stop_system env) (stop_system env)) \<sigma> = Inr ()
   \<and> stop_system env ((fst \<sigma>)\<lparr>running := b\<rparr>, tr) = stop_system env (fst \<sigma>, tr)
   \<and> take 2 (issued (stop_system env) (snd (stop_system env \<sigma>))) =
       [Log INFO ''Stopping P4 DPI System...'', SetRunning False]
   \<and> (filter outer_step (raised env (snd (snd (stop_system env \<sigma>)))
         (issued (stop_system env) (snd (stop_system env \<sigma>)))) = [] \<longrightarrow>
       set (stop_calls (fst \<sigma>)) \<subseteq> set (issued (stop_system env) (snd (stop_system env \<sigma>))) \<and>
       (\<forall>p\<in>snd ` set (processes (fst \<sigma>)).
          Terminate p \<in> set (issued (stop_system env) (snd (stop_system env \<sigma>)))) \<and>
       (\<forall>t\<in>set (threads (fst \<sigma>)).
          Join t 5 \<in> set (issued (stop_system env) (snd (stop_system env \<sigma>)))))"
proof -
  from stop_system_result [of env \<sigma>] obtain evs where
    1: "stop_system env \<sigma> = (Inr (), ((fst \<sigma>)\<lparr>running := False\<rparr>, snd \<sigma> @ evs))"
    by blast
  let ?\<sigma>1 = "((fst \<sigma>)\<lparr>running := False\<rparr>, snd \<sigma> @ evs)"
  from stop_system_result [of env ?\<sigma>1] obtain evs' where
    2: "stop_system env ?\<sigma>1 = (Inr (), ((fst \<sigma>)\<lparr>running := False\<rparr>, (snd \<sigma> @ evs) @ evs'))"
    by auto
  have s1: "snd (stop_system env \<sigma>) = ?\<sigma>1" by (simp add: 1)
  have A: "self_after (stop_system env) \<sigma> = (fst \<sigma>)\<lparr>running := False\<rparr>"
    by (simp add: self_after_def 1)
  have B: "self_after (andthen (stop_system env) (stop_system env)) \<sigma>
      = (fst \<sigma>)\<lparr>running := False\<rparr>"
    by (simp add: self_after_def andthen_def bind_prog_def 1 2)
  have C: "outcome_of (andthen (stop_system env) (stop_system env)) \<sigma> = Inr ()"
    by (simp add: outcome_of_def andthen_def bind_prog_def 1 2)
  have D: "stop_system env ((fst \<sigma>)\<lparr>running := b\<rparr>, tr) = stop_system env (fst \<sigma>, tr)"
    by (rule stop_system_flag_unread)
  from stop_system_cases [of env ?\<sigma>1] obtain r :: "exn + unit" and e1 e2 where
    "issued (stop_system env) ?\<sigma>1 =
       [Log INFO ''Stopping P4 DPI System...'', SetRunning False] @ e1 @ e2 @
       [case r of Inr x \<Rightarrow> Log INFO ''P4 DPI System stopped''
                | Inl e \<Rightarrow> Log ERROR ''Error stopping system'']"
    by blast
  then have E: "take 2 (issued (stop_system env) (snd (stop_system env \<sigma>))) =
       [Log INFO ''Stopping P4 DPI System...'', SetRunning False]"
    by (simp add: s1)
  have F: "set (stop_calls (fst \<sigma>)) \<subseteq> set (issued (stop_system env) (snd (stop_system env \<sigma>))) \<and>
       (\<forall>p\<in>snd ` set (processes (fst \<sigma>)).
          Terminate p \<in> set (issued (stop_system env) (snd (stop_system env \<sigma>)))) \<and>
       (\<forall>t\<in>set (threads (fst \<sigma>)).
          Join t 5 \<in> set (issued (stop_system env) (snd (stop_system env \<sigma>))))"
    if "filter outer_step (raised env (snd (snd (stop_system env \<sigma>)))
         (issued (stop_system env) (snd (stop_system env \<sigma>)))) = []"
    using stop_system_attempts [of env ?\<sigma>1] that by (simp add: s1 stop_calls_def)
  from A B C D E F show ?thesis by blast
qed

theorem stop_system_twice_witness:
  "issued (stop_system (\<lambda>h c. Ret 0))
      (snd (stop_system (\<lambda>h c. Ret 0)
         (new_dpi_system empty_config 0
            \<lparr>traffic_generator := Some (), topology := Some (),
             threads := [MonitorSystem], processes := [(''flask_api'', 7)]\<rparr>, []))) =
     [Log INFO ''Stopping P4 DPI System...'', SetRunning False, StopTrafficGeneration,
      TopologyStop, Terminate 7, Wait 7 5, Join MonitorSystem 5,
      Log INFO ''P4 DPI System stopped'']
   \<and> self_after (andthen (stop_system (\<lambda>h c. Ret 0)) (stop_system (\<lambda>h c. Ret 0)))
        (new_dpi_system empty_config 0
            \<lparr>traffic_generator := Some (), topology := Some (),
             threads := [MonitorSystem], processes := [(''flask_api'', 7)]\<rparr>, []) =
      new_dpi_system empty_config 0
            \<lparr>traffic_generator := Some (), topology := Some (),
             threads := [MonitorSystem], processes := [(''flask_api'', 7)]\<rparr>"
  using stop_system_twice [of "\<lambda>h c. Ret 0"
      "(new_dpi_system empty_config 0
            \<lparr>traffic_generator := Some (), topology := Some (),
             threads := [MonitorSystem], processes := [(''flask_api'', 7)]\<rparr>, [])"
      False "[]"]
  by (simp add: stop_eval)

text \<open>
  Two calls in a row on an object with a topology and one process, every call returning:
  the second call stops the topology and terminates the process again, and the registry
  still holds the process.
\<close>

theorem stop_system_second_call_signals:
  "stop_system (\<lambda>h c. Ret 0)
     (new_dpi_system empty_config 0
        \<lparr>running := True, topology := Some (), processes := [(''flask_api'', 7)]\<rparr>, []) =
     (Inr (),
      new_dpi_system empty_config 0
        \<lparr>running := False, topology := Some (), processes := [(''flask_api'', 7)]\<rparr>,
      [Log INFO ''Stopping P4 DPI System...'', SetRunning False, TopologyStop,
       Terminate 7, Wait 7 5, Log INFO ''P4 DPI System stopped''])
   \<and> stop_system (\<lambda>h c. Ret 0)
     (new_dpi_system empty_config 0
        \<lparr>running := False, topology := Some (), processes := [(''flask_api'', 7)]\<rparr>,
      [Log INFO ''Stopping P4 DPI System...'', SetRunning False, TopologyStop,
       Terminate 7, Wait 7 5, Log INFO ''P4 DPI System stopped'']) =
     (Inr (),
      new_dpi_system empty_config 0
        \<lparr>running := False, topology := Some (), processes := [(''flask_api'', 7)]\<rparr>,
      [Log INFO ''Stopping P4 DPI System...'', SetRunning False, TopologyStop,
       Terminate 7, Wait 7 5, Log INFO ''P4 DPI System stopped'',
       Log INFO ''Stopping P4 DPI System...'', SetRunning False, TopologyStop,
       Terminate 7, Wait 7 5, Log INFO ''P4 DPI System stopped''])"
  by (simp add: stop_eval)




section \<open>The delayed exporter: once, and when\<close>




section \<open>The controller reference\<close>

text \<open>
  C10.  In every state of a run the controller reference is \<open>None\<close>, the controller's
  statistics have never been retrieved, and every health snapshot written has exactly
  the keys \<^verbatim>\<open>controller\<close>, \<^verbatim>\<open>logger\<close>, \<^verbatim>\<open>traffic_generator\<close>, \<^verbatim>\<open>topology\<close>, with
  \<^verbatim>\<open>stopped\<close> for the controller; in such a state \<^verbatim>\<open>log_statistics\<close> does nothing at
  all, and the components \<^verbatim>\<open>check_system_health\<close> reports are those four, the
  controller stopped.  \<^verbatim>\<open>check_system_health\<close> asks the time and writes one snapshot,
  of these components.  No operation assigns the controller reference: after the compile
  step, each of the six startup actions, the scheduling and the body of the export,
  \<^verbatim>\<open>start_system\<close>, \<^verbatim>\<open>check_system_health\<close>, \<^verbatim>\<open>log_statistics\<close>, a turn of the
  monitoring loop, \<^verbatim>\<open>stop_system\<close> and \<^verbatim>\<open>run\<close>, from any state, it is what it was.
\<close>

theorem controller_never_assigned:
  "(reachable env fs config_file \<sigma> \<longrightarrow>
      controller (fst \<sigma>) = None
      \<and> GetRealTimeStats \<notin> set (snd \<sigma>)
      \<and> (\<forall>t H. WriteHealth t H \<in> set (snd \<sigma>) \<longrightarrow>
            map fst H = [''controller'', ''logger'', ''traffic_generator'', ''topology'']
            \<and> map_of H ''controller'' = Some ''stopped'')
      \<and> log_statistics env \<sigma> = (Inr (), \<sigma>)
      \<and> health_components (fst \<sigma>) =
          [(''controller'', ''stopped''), (''logger'', status_of (logger_component (fst \<sigma>))),
           (''traffic_generator'', status_of (traffic_generator (fst \<sigma>))),
           (''topology'', status_of (topology (fst \<sigma>)))])
   \<and> check_system_health env \<tau> =
       (case env (snd \<tau>) Now of
          Exc e \<Rightarrow> (Inl e, (fst \<tau>, snd \<tau> @ [Now]))
        | Ret t \<Rightarrow>
            (case env (snd \<tau> @ [Now]) (WriteHealth t (health_components (fst \<tau>))) of
               Exc e \<Rightarrow>
                 (Inl e, (fst \<tau>, snd \<tau> @ [Now, WriteHealth t (health_components (fst \<tau>))]))
             | Ret v \<Rightarrow>
                 (Inr (), (fst \<tau>, snd \<tau> @ [Now, WriteHealth t (health_components (fst \<tau>))]))))
   \<and> controller (self_after (compile_p4_program env) \<tau>) = controller (fst \<tau>)
   \<and> controller (self_after (start_mininet_topology env) \<tau>) = controller (fst \<tau>)
   \<and> controller (self_after (start_p4_controller env) \<tau>) = controller (fst \<tau>)
   \<and> controller (self_after (start_packet_logger env) \<tau>) = controller (fst \<tau>)
   \<and> controller (self_after (start_traffic_generator env) \<tau>) = controller (fst \<tau>)
   \<and> controller (self_after (start_web_interface env) \<tau>) = controller (fst \<tau>)
   \<and> controller (self_after (start_monitoring env) \<tau>) = controller (fst \<tau>)
   \<and> controller (self_after (schedule_initial_export env) \<tau>) = controller (fst \<tau>)
   \<and> controller (self_after (export_after_delay env delay db_file) \<tau>) = controller (fst \<tau>)
   \<and> controller (self_after (start_system env) \<tau>) = controller (fst \<tau>)
   \<and> controller (self_after (check_system_health env) \<tau>) = controller (fst \<tau>)
   \<and> controller (self_after (log_statistics env) \<tau>) = controller (fst \<tau>)
   \<and> controller (self_after (monitor_iteration env) \<tau>) = controller (fst \<tau>)
   \<and> controller (self_after (stop_system env) \<tau>) = controller (fst \<tau>)
   \<and> controller (self_after (run env) \<tau>) = controller (fst \<tau>)"
proof -
  have A: "controller (fst \<sigma>) = None
      \<and> GetRealTimeStats \<notin> set (snd \<sigma>)
      \<and> (\<forall>t H. WriteHealth t H \<in> set (snd \<sigma>) \<longrightarrow>
            map fst H = [''controller'', ''logger'', ''traffic_generator'', ''topology'']
            \<and> map_of H ''controller'' = Some ''stopped'')
      \<and> log_statistics env \<sigma> = (Inr (), \<sigma>)
      \<and> health_components (fst \<sigma>) =
          [(''controller'', ''stopped''), (''logger'', status_of (logger_component (fst \<sigma>))),
           (''traffic_generator'', status_of (traffic_generator (fst \<sigma>))),
           (''topology'', status_of (topology (fst \<sigma>)))]"
    if "reachable env fs config_file \<sigma>"
  proof -
    from reachable_kept [OF that] have c: "controller (fst \<sigma>) = None"
      and l: "\<And>e. e \<in> set (snd \<sigma>) \<Longrightarrow> health_ok e"
      by (auto simp: kept_def list_all_iff)
    from l [of GetRealTimeStats] have g: "GetRealTimeStats \<notin> set (snd \<sigma>)" by auto
    have h: "map fst H = [''controller'', ''logger'', ''traffic_generator'', ''topology'']
            \<and> map_of H ''controller'' = Some ''stopped''"
      if "WriteHealth t H \<in> set (snd \<sigma>)" for t H
      using l [OF that] by simp
    from c g h log_statistics_none [OF c] health_components_stopped [OF c]
    show ?thesis by blast
  qed
  have t: "True" ..
  note st = kept_stable [of "\<lambda>e. True" "controller (fst \<tau>)"]
  have F: "controller (self_after (compile_p4_program env) \<tau>) = controller (fst \<tau>)"
    "controller (self_after (start_mininet_topology env) \<tau>) = controller (fst \<tau>)"
    "controller (self_after (start_p4_controller env) \<tau>) = controller (fst \<tau>)"
    "controller (self_after (start_packet_logger env) \<tau>) = controller (fst \<tau>)"
    "controller (self_after (start_traffic_generator env) \<tau>) = controller (fst \<tau>)"
    "controller (self_after (start_web_interface env) \<tau>) = controller (fst \<tau>)"
    "controller (self_after (start_monitoring env) \<tau>) = controller (fst \<tau>)"
    by (rule kept_frame, intro preserves_compile_p4_program preserves_start_mininet_topology
        preserves_start_p4_controller preserves_start_packet_logger
        preserves_start_traffic_generator preserves_start_web_interface
        preserves_start_monitoring st, rule t)+
  have G: "controller (self_after (schedule_initial_export env) \<tau>) = controller (fst \<tau>)"
    "controller (self_after (export_after_delay env delay db_file) \<tau>) = controller (fst \<tau>)"
    "controller (self_after (start_system env) \<tau>) = controller (fst \<tau>)"
    "controller (self_after (stop_system env) \<tau>) = controller (fst \<tau>)"
    "controller (self_after (run env) \<tau>) = controller (fst \<tau>)"
    by (rule kept_frame, intro kept_schedule_initial_export kept_export_after_delay
        kept_start_system kept_stop_system kept_run, rule t)+
  from A F G check_system_health_result [of env \<tau>] frame_check_system_health [of env \<tau>]
    frame_log_statistics [of env \<tau>] frame_monitor_iteration [of env \<tau>]
  show ?thesis by blast
qed

theorem controller_never_assigned_witness:
  "reachable (\<lambda>h c. Ret 0) (\<lambda>f. Loaded empty_config) ''config/dpi_config.yaml''
      (new_dpi_system empty_config 0,
       [OpenConfig ''config/dpi_config.yaml'', Makedirs ''logs'',
        BasicConfig ''logs/dpi_system.log'', Log INFO ''DPI System initialized'',
        SetRunning False, Now, Now,
        WriteHealth 0 [(''controller'', ''stopped''), (''logger'', ''stopped''),
                       (''traffic_generator'', ''stopped''), (''topology'', ''stopped'')]])
   \<and> controller (new_dpi_system empty_config 0) = None
   \<and> log_statistics (\<lambda>h c. Ret 0)
      (new_dpi_system empty_config 0,
       [OpenConfig ''config/dpi_config.yaml'', Makedirs ''logs'',
        BasicConfig ''logs/dpi_system.log'', Log INFO ''DPI System initialized'',
        SetRunning False, Now, Now,
        WriteHealth 0 [(''controller'', ''stopped''), (''logger'', ''stopped''),
                       (''traffic_generator'', ''stopped''), (''topology'', ''stopped'')]]) =
     (Inr (), (new_dpi_system empty_config 0,
       [OpenConfig ''config/dpi_config.yaml'', Makedirs ''logs'',
        BasicConfig ''logs/dpi_system.log'', Log INFO ''DPI System initialized'',
        SetRunning False, Now, Now,
        WriteHealth 0 [(''controller'', ''stopped''), (''logger'', ''stopped''),
                       (''traffic_generator'', ''stopped''), (''topology'', ''stopped'')]]))"
proof -
  let ?env = "(\<lambda>h c. Ret 0) :: env"
  let ?fs = "(\<lambda>f. Loaded empty_config) :: string \<Rightarrow> file_result"
  let ?tr = "[OpenConfig ''config/dpi_config.yaml'', Makedirs ''logs'',
        BasicConfig ''logs/dpi_system.log'', Log INFO ''DPI System initialized'',
        SetRunning False, Now]"
  let ?\<sigma> = "(new_dpi_system empty_config 0, ?tr @ [Now,
        WriteHealth 0 [(''controller'', ''stopped''), (''logger'', ''stopped''),
                       (''traffic_generator'', ''stopped''), (''topology'', ''stopped'')]])"
  have "dpi_init ?env ?fs ''config/dpi_config.yaml'' [] = (Inr (new_dpi_system empty_config 0), ?tr)"
    by (simp add: dpi_init_def load_config_def setup_logging_def empty_config_def opt_default_def)
  then have "reachable ?env ?fs ''config/dpi_config.yaml'' (new_dpi_system empty_config 0, ?tr)"
    by (rule reachable.constructed)
  then have "reachable ?env ?fs ''config/dpi_config.yaml''
      (snd (check_system_health ?env (new_dpi_system empty_config 0, ?tr)))"
    by (rule reachable.after_check_system_health)
  then have r: "reachable ?env ?fs ''config/dpi_config.yaml'' ?\<sigma>"
    by (simp add: check_system_health_result health_components_def status_of_def
        new_dpi_system_def)
  from controller_never_assigned [of ?env ?fs "''config/dpi_config.yaml''" ?\<sigma>] r
  show ?thesis by (simp add: new_dpi_system_def)
qed

end
